theory Spec2Isabelle
  imports Complex_Main "HOL-Library.Monad_Syntax" "HOL-Library.Log_Nat"
begin

section \<open>Numbers\<close>

text \<open>
  The scoring code computes with JavaScript numbers. Counts, ratios, weights and scores
  are \<^typ>\<open>rat\<close>; the calculators and the first definition of the composite score compute
  with them exactly, and the second definition of the composite score rounds every
  operation to double precision. \<^verbatim>\<open>Math.round\<close> rounds to the nearest integer, halves
  upwards (towards plus infinity).
\<close>

definition js_round :: "rat \<Rightarrow> rat" where
  "js_round x = of_int \<lfloor>x + 1 / 2\<rfloor>"

subsection \<open>Double precision\<close>

text \<open>
  Where the rounding of the arithmetic decides a result (the weighted mean of
  \<^verbatim>\<open>calculateCompositeScore\<close>, whose quotient can fall on a half-integer), the
  operations are modelled as IEEE 754 double-precision operations: the exact result of an
  addition, multiplication or division, rounded to the nearest number with a significand
  of 53 bits, ties to the even significand. The exponent is not bounded here: overflow to
  an infinity and gradual underflow are not represented.
\<close>

definition round_half_even :: "rat \<Rightarrow> int" where
  "round_half_even y =
     (let r = \<lfloor>y\<rfloor>; d = y - of_int r
      in if d < 1 / 2 then r else if d > 1 / 2 then r + 1 else if even r then r else r + 1)"

text \<open>For \<open>x > 0\<close>, the integer \<open>n\<close> with \<open>2\<^sup>n \<le> x < 2\<^sup>n\<^sup>+\<^sup>1\<close>.\<close>

definition log2_floor :: "rat \<Rightarrow> int" where
  "log2_floor x =
     (if x \<ge> 1 then bitlen \<lfloor>x\<rfloor> - 1
      else (let m = bitlen \<lfloor>1 / x\<rfloor> in if x = 2 powi (1 - m) then 1 - m else - m))"

definition fl64 :: "rat \<Rightarrow> rat" where
  "fl64 x =
     (if x = 0 then 0
      else (let e = log2_floor \<bar>x\<bar> - 52;
                m = round_half_even (\<bar>x\<bar> * 2 powi (- e))
            in sgn x * of_int m * 2 powi e))"



text \<open>
  A division whose divisor is zero yields \<^verbatim>\<open>NaN\<close> or an infinity in JavaScript, and
  reading a property of \<^verbatim>\<open>undefined\<close> (an array element out of range) throws a
  \<^verbatim>\<open>TypeError\<close>. Neither produces a rational: both are the failure value
  \<^const>\<open>None\<close> of the model, and a calculator returns \<^term>\<open>Some m\<close> only when
  every division it made had a non-zero divisor and every element it read existed.
\<close>

definition js_div :: "rat \<Rightarrow> rat \<Rightarrow> rat option" where
  "js_div a b = (if b = 0 then None else Some (a / b))"

definition element_at :: "'a list \<Rightarrow> nat \<Rightarrow> 'a option" where
  "element_at xs i = (if i < length xs then Some (xs ! i) else None)"

text \<open>
  Truthiness of a \<^verbatim>\<open>string | null\<close> value: \<^verbatim>\<open>null\<close> and the empty string are falsy.
\<close>

definition truthy :: "string option \<Rightarrow> bool" where
  "truthy s = (case s of None \<Rightarrow> False | Some v \<Rightarrow> v \<noteq> [])"

text \<open>\<^verbatim>\<open>if (c) recommendations.push(msg)\<close>\<close>

definition push_if :: "bool \<Rightarrow> string \<Rightarrow> string list" where
  "push_if c msg = (if c then [msg] else [])"

text \<open>
  \<^verbatim>\<open>[...new Set(xs)]\<close>: a JavaScript Set keeps its elements in insertion order and
  ignores the insertion of an element it already holds.
\<close>

definition set_add :: "'a list \<Rightarrow> 'a \<Rightarrow> 'a list" where
  "set_add acc x = (if x \<in> set acc then acc else acc @ [x])"

definition new_Set :: "'a list \<Rightarrow> 'a list" where
  "new_Set xs = foldl set_add [] xs"

text \<open>
  \<^verbatim>\<open>counts[k] = (counts[k] || 0) + 1\<close> on an object used as a counter, kept as an
  association list in insertion order. (JavaScript enumerates keys that are array
  indices first; only the number of keys and their counts are read below.)
\<close>

definition count_key :: "(string \<times> nat) list \<Rightarrow> string \<Rightarrow> (string \<times> nat) list" where
  "count_key counts k =
     (if k \<in> set (map fst counts)
      then map (\<lambda>e. if fst e = k then (fst e, snd e + 1) else e) counts
      else counts @ [(k, 1)])"

text \<open>
  \<^verbatim>\<open>s.toLowerCase()\<close> on the ASCII letters and \<^verbatim>\<open>s.includes(t)\<close>. Strings are
  byte strings here; case mapping of other scripts is not modelled.
\<close>

definition lower_char :: "char \<Rightarrow> char" where
  "lower_char c =
     (if 65 \<le> (of_char c :: nat) \<and> (of_char c :: nat) \<le> 90 then char_of (of_char c + 32 :: nat) else c)"

definition toLowerCase :: "string \<Rightarrow> string" where
  "toLowerCase s = map lower_char s"

fun str_includes :: "string \<Rightarrow> string \<Rightarrow> bool" where
  "str_includes [] t = (t = [])"
| "str_includes (c # cs) t = (take (length t) (c # cs) = t \<or> str_includes cs t)"

section \<open>GitHub connector (github.connector.ts)\<close>

text \<open>
  The records of the connectors keep the fields that are numbers and the fields that
  \<^verbatim>\<open>calculateMetrics\<close> reads; dates are the instants they parse to (milliseconds).
  The \<^verbatim>\<open>breakdown\<close> of raw statistics in the returned metrics is display data that no
  score and no recommendation depends on; it is left out of the metrics records.
\<close>

record GitHubUserProfile =
  gh_bio :: "string option"
  gh_followers :: rat
  gh_following :: rat
  publicRepos :: rat
  publicGists :: rat

record GitHubRepository =
  description :: "string option"
  languages :: "(string \<times> rat) list"
  stargazersCount :: rat
  forksCount :: rat
  watchersCount :: rat
  openIssuesCount :: rat
  pushedAt :: int
  isForked :: bool
  topics :: "string list"
  license :: "string option"

record GitHubContributionStats =
  totalCommits :: rat
  totalPRs :: rat
  totalIssues :: rat
  totalReviews :: rat
  contributionsByDay :: "(string \<times> rat) list"
  currentStreak :: rat
  longestStreak :: rat

record GitHubMetrics =
  codeQualityScore :: rat
  languageDiversity :: rat
  commitFrequency :: rat
  collaborationScore :: rat
  projectImpactScore :: rat
  gh_overallScore :: rat
  gh_recommendations :: "string list"

text \<open>The score formulas of \<^verbatim>\<open>calculateMetrics\<close>, as functions of the aggregates they read.\<close>

definition gh_codeQualityScore :: "rat \<Rightarrow> rat \<Rightarrow> rat \<Rightarrow> rat \<Rightarrow> rat" where
  "gh_codeQualityScore readmeRatio licenseRatio topicsRatio totalStars =
     min (readmeRatio * 30 + licenseRatio * 20 + topicsRatio * 20 + min (totalStars / 100) 1 * 30) 100"

definition gh_commitFrequency :: "rat \<Rightarrow> rat" where
  "gh_commitFrequency commits = min (commits / 365 * 10) 100"

definition gh_collaborationScore :: "rat \<Rightarrow> rat \<Rightarrow> rat \<Rightarrow> rat" where
  "gh_collaborationScore prs reviews issues =
     min (prs / 50 * 40 + reviews / 50 * 30 + issues / 100 * 30) 100"

definition gh_projectImpactScore :: "rat \<Rightarrow> rat \<Rightarrow> rat \<Rightarrow> rat" where
  "gh_projectImpactScore totalStars totalForks followers =
     min (totalStars / 100 * 40 + totalForks / 50 * 30 + followers / 100 * 30) 100"

definition gh_blend :: "rat \<Rightarrow> rat \<Rightarrow> rat \<Rightarrow> rat \<Rightarrow> rat \<Rightarrow> rat" where
  "gh_blend cq ld cf cs im =
     js_round (cq * (25 / 100) + ld * (15 / 100) + cf * (25 / 100) + cs * (2 / 10) + im * (15 / 100))"

text \<open>
  \<^verbatim>\<open>GitHubConnector.calculateMetrics\<close>. The instant six months before the current
  time, against which \<^verbatim>\<open>pushedAt\<close> is compared, is a parameter.
\<close>

definition calculateMetrics_github ::
  "int \<Rightarrow> GitHubUserProfile \<Rightarrow> GitHubRepository list \<Rightarrow> GitHubContributionStats
    \<Rightarrow> GitHubMetrics option" where
  "calculateMetrics_github sixMonthsAgo profile repositories contributionStats =
     (let ownRepos = filter (\<lambda>r. \<not> isForked r) repositories;
          uniqueLanguages = new_Set (concat (map (\<lambda>r. map fst (languages r)) ownRepos));
          languageDiversity = min (of_nat (length uniqueLanguages) / 10) 1 * 100;
          totalStars = foldl (\<lambda>sum r. sum + stargazersCount r) 0 ownRepos;
          totalForks = foldl (\<lambda>sum r. sum + forksCount r) 0 ownRepos;
          hasReadme = length (filter (\<lambda>r. truthy (description r)) ownRepos);
          hasLicense = length (filter (\<lambda>r. truthy (license r)) ownRepos);
          hasTopics = length (filter (\<lambda>r. length (topics r) > 0) ownRepos);
          ownCount = max (of_nat (length ownRepos)) 1
      in do {
        readmeRatio \<leftarrow> js_div (of_nat hasReadme) ownCount;
        licenseRatio \<leftarrow> js_div (of_nat hasLicense) ownCount;
        topicsRatio \<leftarrow> js_div (of_nat hasTopics) ownCount;
        let codeQualityScore = gh_codeQualityScore readmeRatio licenseRatio topicsRatio totalStars;
        let commitFrequency = gh_commitFrequency (totalCommits contributionStats);
        let collaborationScore =
              gh_collaborationScore (totalPRs contributionStats) (totalReviews contributionStats)
                (totalIssues contributionStats);
        let projectImpactScore = gh_projectImpactScore totalStars totalForks (gh_followers profile);
        let activeRepos = length (filter (\<lambda>r. pushedAt r > sixMonthsAgo) ownRepos);
        let overallScore =
              gh_blend codeQualityScore languageDiversity commitFrequency collaborationScore
                projectImpactScore;
        let recommendations =
              push_if (languageDiversity < 50)
                ''Explore more programming languages to increase diversity'' @
              push_if (of_nat hasReadme < of_nat (length ownRepos) * (8 / 10 :: rat))
                ''Add descriptions to more of your repositories'' @
              push_if (of_nat hasLicense < of_nat (length ownRepos) * (5 / 10 :: rat))
                ''Add licenses to your repositories'' @
              push_if (commitFrequency < 50) ''Maintain consistent commit activity'' @
              push_if (collaborationScore < 50)
                ''Contribute to other projects through PRs and code reviews'' @
              push_if (activeRepos < 3) ''Keep more projects actively maintained'' @
              push_if (gh_bio profile = None) ''Add a bio to your GitHub profile'';
        Some \<lparr>codeQualityScore = js_round codeQualityScore,
              languageDiversity = js_round languageDiversity,
              commitFrequency = js_round commitFrequency,
              collaborationScore = js_round collaborationScore,
              projectImpactScore = js_round projectImpactScore,
              gh_overallScore = overallScore,
              gh_recommendations = recommendations\<rparr>
      })"

section \<open>Twitter connector (twitter.connector.ts)\<close>

record TwitterProfile =
  tw_bio :: "string option"
  tw_followers :: rat
  tw_following :: rat
  tweetCount :: rat
  listedCount :: rat
  verified :: bool

record TwitterTweet =
  tweet_text :: string
  tweet_createdAt :: int
  likes :: rat
  retweets :: rat
  replies :: rat
  quotes :: rat
  impressions :: "rat option"
  isRetweet :: bool
  isReply :: bool
  hashtags :: "string list"
  mentions :: "string list"
  urls :: "string list"

record TwitterMetrics =
  tw_engagementScore :: rat
  technicalContentScore :: rat
  influenceScore :: rat
  tw_consistencyScore :: rat
  tw_overallScore :: rat
  tw_recommendations :: "string list"

definition TECH_KEYWORDS :: "string list" where
  "TECH_KEYWORDS =
     [''javascript'', ''typescript'', ''python'', ''java'', ''rust'', ''golang'', ''react'',
      ''vue'', ''angular'', ''nodejs'', ''docker'', ''kubernetes'', ''aws'', ''azure'', ''gcp'',
      ''api'', ''database'', ''sql'', ''nosql'', ''mongodb'', ''postgresql'', ''redis'',
      ''git'', ''github'', ''gitlab'', ''cicd'', ''devops'', ''agile'', ''scrum'',
      ''machine learning'', ''ai'', ''ml'', ''deep learning'', ''neural network'',
      ''frontend'', ''backend'', ''fullstack'', ''microservices'', ''serverless'',
      ''programming'', ''coding'', ''developer'', ''software'', ''engineering'',
      ''algorithm'', ''data structure'', ''open source'', ''code review'']"

text \<open>\<^verbatim>\<open>keyword.replace(/\s+/g, '')\<close>; the keywords hold no white space but blanks.\<close>

definition remove_blanks :: "string \<Rightarrow> string" where
  "remove_blanks s = filter (\<lambda>c. c \<noteq> CHR '' '') s"

definition isTechnicalTweet :: "TwitterTweet \<Rightarrow> bool" where
  "isTechnicalTweet tweet =
     (let text = toLowerCase (tweet_text tweet);
          tags = map toLowerCase (hashtags tweet)
      in list_ex (\<lambda>keyword. str_includes text keyword \<or> remove_blanks keyword \<in> set tags)
           TECH_KEYWORDS)"

definition tw_engagementScore_of :: "rat \<Rightarrow> rat \<Rightarrow> rat \<Rightarrow> rat" where
  "tw_engagementScore_of avgLikes avgRetweets engagementRate =
     min ((if avgLikes \<ge> 10 then 40 else avgLikes * 4) +
          (if avgRetweets \<ge> 5 then 30 else avgRetweets * 6) +
          (if engagementRate \<ge> 1 then 30 else engagementRate * 30)) 100"

definition tw_influenceScore_of :: "rat \<Rightarrow> rat \<Rightarrow> bool \<Rightarrow> rat" where
  "tw_influenceScore_of followers listed isVerified =
     min ((if followers \<ge> 10000 then 40 else (followers / 10000) * 40) +
          (if listed \<ge> 100 then 30 else (listed / 100) * 30) +
          (if isVerified then 30 else 0)) 100"

definition tw_consistencyScore_of :: "rat \<Rightarrow> rat" where
  "tw_consistencyScore_of tweetsPerWeek =
     min (if tweetsPerWeek \<ge> 7 then 100 else tweetsPerWeek * 14) 100"

definition tw_blend :: "rat \<Rightarrow> rat \<Rightarrow> rat \<Rightarrow> rat \<Rightarrow> rat" where
  "tw_blend es ts fs cs =
     js_round (es * (3 / 10) + ts * (25 / 100) + fs * (25 / 100) + cs * (2 / 10))"

text \<open>\<^verbatim>\<open>TwitterConnector.calculateMetrics\<close>\<close>

definition calculateMetrics_twitter :: "TwitterProfile \<Rightarrow> TwitterTweet list \<Rightarrow> TwitterMetrics option" where
  "calculateMetrics_twitter profile tweets =
     (let originalTweets = filter (\<lambda>t. \<not> isRetweet t) tweets
      in if length originalTweets = 0
         then Some \<lparr>tw_engagementScore = 0,
                    technicalContentScore = 0,
                    influenceScore = min ((tw_followers profile / 1000) * 20) 100,
                    tw_consistencyScore = 0,
                    tw_overallScore = min ((tw_followers profile / 1000) * 5) 25,
                    tw_recommendations = [''Tweet more to build your social presence'']\<rparr>
         else do {
           let totalLikes = foldl (\<lambda>sum t. sum + likes t) 0 originalTweets;
           let totalRetweets = foldl (\<lambda>sum t. sum + retweets t) 0 originalTweets;
           avgLikes \<leftarrow> js_div totalLikes (of_nat (length originalTweets));
           avgRetweets \<leftarrow> js_div totalRetweets (of_nat (length originalTweets));
           let totalEngagement = totalLikes + totalRetweets * 2;
           engagementRate \<leftarrow>
             (if tw_followers profile > 0
              then do {
                perTweet \<leftarrow> js_div totalEngagement (of_nat (length originalTweets));
                perFollower \<leftarrow> js_div perTweet (tw_followers profile);
                Some (perFollower * 100)
              }
              else Some 0);
           let technicalTweets = filter isTechnicalTweet originalTweets;
           technicalTweetRatio \<leftarrow>
             js_div (of_nat (length technicalTweets)) (of_nat (length originalTweets));
           let hashtagCounts =
                 foldl count_key [] (concat (map (\<lambda>t. map toLowerCase (hashtags t)) originalTweets));
           let topHashtags = map fst (take 5 (sort_key (\<lambda>e. - int (snd e)) hashtagCounts));
           let engagementScore = tw_engagementScore_of avgLikes avgRetweets engagementRate;
           let technicalContentScore = min (technicalTweetRatio * 100) 100;
           let influenceScore =
                 tw_influenceScore_of (tw_followers profile) (listedCount profile) (verified profile);
           let sortedTweets = sort_key tweet_createdAt originalTweets;
           tweetsPerWeek \<leftarrow>
             (if length sortedTweets \<ge> 2
              then do {
                firstTweet \<leftarrow> element_at sortedTweets 0;
                lastTweet \<leftarrow> element_at sortedTweets (length sortedTweets - 1);
                let weeks = max 1 (of_int (tweet_createdAt lastTweet - tweet_createdAt firstTweet)
                                     / (1000 * 60 * 60 * 24 * 7));
                js_div (of_nat (length originalTweets)) weeks
              }
              else Some 0);
           let consistencyScore = tw_consistencyScore_of tweetsPerWeek;
           let overallScore =
                 tw_blend engagementScore technicalContentScore influenceScore consistencyScore;
           let recommendations =
                 push_if (technicalTweetRatio < 3 / 10)
                   ''Share more technical content to establish expertise'' @
                 push_if (avgLikes < 5) ''Engage more with the community to increase visibility'' @
                 push_if (tweetsPerWeek < 3) ''Tweet more consistently to grow your audience'' @
                 push_if (length topHashtags < 3) ''Use relevant hashtags to reach a wider audience'' @
                 push_if (tw_bio profile = None) ''Add a bio to your Twitter profile'';
           Some \<lparr>tw_engagementScore = js_round engagementScore,
                 technicalContentScore = js_round technicalContentScore,
                 influenceScore = js_round influenceScore,
                 tw_consistencyScore = js_round consistencyScore,
                 tw_overallScore = overallScore,
                 tw_recommendations = recommendations\<rparr>
         })"

section \<open>Blog connector (blog.connector.ts)\<close>

record BlogPost =
  excerpt :: "string option"
  tags :: "string list"
  publishedAt :: int
  readingTime :: rat
  reactions :: rat
  comments :: rat
  views :: "rat option"
  coverImage :: "string option"

record BlogProfile =
  bl_followers :: rat
  bl_following :: rat
  totalPosts :: rat

record BlogMetrics =
  contentQualityScore :: rat
  bl_consistencyScore :: rat
  bl_engagementScore :: rat
  topicDiversityScore :: rat
  bl_overallScore :: rat
  bl_recommendations :: "string list"

text \<open>\<^verbatim>\<open>p.excerpt && p.excerpt.length > 50\<close>\<close>

definition long_excerpt :: "BlogPost \<Rightarrow> bool" where
  "long_excerpt p = (case excerpt p of None \<Rightarrow> False | Some e \<Rightarrow> e \<noteq> [] \<and> length e > 50)"

definition bl_contentQualityScore_of :: "rat \<Rightarrow> rat \<Rightarrow> rat \<Rightarrow> rat \<Rightarrow> rat" where
  "bl_contentQualityScore_of avgReadingTime coverRatio excerptRatio postCount =
     min ((if avgReadingTime \<ge> 3 then 30 else avgReadingTime * 10) +
          coverRatio * 20 + excerptRatio * 20 + min (postCount / 20) 1 * 30) 100"

definition bl_consistencyScore_of :: "rat \<Rightarrow> rat" where
  "bl_consistencyScore_of postsPerMonth =
     min (if postsPerMonth \<ge> 4 then 100 else postsPerMonth * 25) 100"

definition bl_engagementScore_of :: "rat \<Rightarrow> rat \<Rightarrow> rat \<Rightarrow> rat" where
  "bl_engagementScore_of reactionsPerPost commentsPerPost followers =
     min ((if reactionsPerPost \<ge> 10 then 40 else reactionsPerPost * 4) +
          (if commentsPerPost \<ge> 5 then 30 else commentsPerPost * 6) +
          (if followers \<ge> 100 then 30 else followers * (3 / 10))) 100"

definition bl_blend :: "rat \<Rightarrow> rat \<Rightarrow> rat \<Rightarrow> rat \<Rightarrow> rat" where
  "bl_blend cq cs es td =
     js_round (cq * (3 / 10) + cs * (25 / 100) + es * (3 / 10) + td * (15 / 100))"

text \<open>
  \<^verbatim>\<open>BlogConnector.calculateMetrics\<close>. The source divides the reaction and comment
  totals by the number of posts each time it reads the quotient; the model divides once.
\<close>

definition calculateMetrics_blog :: "BlogProfile \<Rightarrow> BlogPost list \<Rightarrow> BlogMetrics option" where
  "calculateMetrics_blog profile posts =
     (if length posts = 0
      then Some \<lparr>contentQualityScore = 0,
                 bl_consistencyScore = 0,
                 bl_engagementScore = 0,
                 topicDiversityScore = 0,
                 bl_overallScore = 0,
                 bl_recommendations = [''Start writing blog posts to build your content portfolio'']\<rparr>
      else do {
        let totalReactions = foldl (\<lambda>sum p. sum + reactions p) 0 posts;
        let totalComments = foldl (\<lambda>sum p. sum + comments p) 0 posts;
        avgReadingTime \<leftarrow>
          js_div (foldl (\<lambda>sum p. sum + readingTime p) 0 posts) (of_nat (length posts));
        let sortedPosts = sort_key publishedAt posts;
        firstPost \<leftarrow> element_at sortedPosts 0;
        lastPost \<leftarrow> element_at sortedPosts (length sortedPosts - 1);
        let monthsActive = max 1 (of_int (publishedAt lastPost - publishedAt firstPost)
                                    / (1000 * 60 * 60 * 24 * 30));
        postsPerMonth \<leftarrow> js_div (of_nat (length posts)) monthsActive;
        let tagCounts = foldl count_key [] (concat (map tags posts));
        let uniqueTags = length tagCounts;
        coverRatio \<leftarrow>
          js_div (of_nat (length (filter (\<lambda>p. truthy (coverImage p)) posts))) (of_nat (length posts));
        excerptRatio \<leftarrow>
          js_div (of_nat (length (filter long_excerpt posts))) (of_nat (length posts));
        let contentQualityScore =
              bl_contentQualityScore_of avgReadingTime coverRatio excerptRatio (of_nat (length posts));
        let consistencyScore = bl_consistencyScore_of postsPerMonth;
        reactionsPerPost \<leftarrow> js_div totalReactions (of_nat (length posts));
        commentsPerPost \<leftarrow> js_div totalComments (of_nat (length posts));
        let engagementScore =
              bl_engagementScore_of reactionsPerPost commentsPerPost (bl_followers profile);
        let topicDiversityScore = min ((of_nat uniqueTags / 10) * 100) 100;
        let overallScore =
              bl_blend contentQualityScore consistencyScore engagementScore topicDiversityScore;
        let recommendations =
              push_if (postsPerMonth < 2) ''Write more frequently to maintain reader engagement'' @
              push_if (avgReadingTime < 3) ''Write longer, more in-depth articles'' @
              push_if (uniqueTags < 5) ''Cover more diverse topics to reach a wider audience'' @
              push_if (of_nat (length (filter (\<lambda>p. truthy (coverImage p)) posts))
                         < of_nat (length posts) * (8 / 10 :: rat))
                ''Add cover images to more of your posts'' @
              push_if (reactionsPerPost < 5) ''Engage with the community to increase your reactions'';
        Some \<lparr>contentQualityScore = js_round contentQualityScore,
              bl_consistencyScore = js_round consistencyScore,
              bl_engagementScore = js_round engagementScore,
              topicDiversityScore = js_round topicDiversityScore,
              bl_overallScore = overallScore,
              bl_recommendations = recommendations\<rparr>
      })"

section \<open>LinkedIn connector (linkedin.connector.ts)\<close>

text \<open>
  A date is read through \<^verbatim>\<open>getFullYear()\<close> and \<^verbatim>\<open>getMonth()\<close> only: it is the
  pair of the two. The current date is a parameter.
\<close>

type_synonym year_month = "int \<times> int"

record LinkedInProfile =
  headline :: "string option"
  li_bio :: "string option"
  connections :: rat

record LinkedInExperience =
  startDate :: year_month
  endDate :: "year_month option"
  isCurrent :: bool
  exp_description :: "string option"

record LinkedInEducation =
  degree :: "string option"
  fieldOfStudy :: "string option"
  startYear :: "rat option"
  endYear :: "rat option"

record LinkedInSkill =
  skill_name :: string
  endorsements :: rat

record LinkedInCertification =
  cert_name :: string
  authority :: string

record LinkedInMetrics =
  experienceScore :: rat
  educationScore :: rat
  skillsScore :: rat
  networkScore :: rat
  li_overallScore :: rat
  li_recommendations :: "string list"

definition months_between :: "year_month \<Rightarrow> year_month \<Rightarrow> int" where
  "months_between start end = (fst end - fst start) * 12 + (snd end - snd start)"

text \<open>\<^verbatim>\<open>e.degree?.toLowerCase().includes(word)\<close>\<close>

definition degree_includes :: "LinkedInEducation \<Rightarrow> string \<Rightarrow> bool" where
  "degree_includes e word =
     (case degree e of None \<Rightarrow> False | Some d \<Rightarrow> str_includes (toLowerCase d) word)"

definition li_experienceScore_of :: "rat \<Rightarrow> nat \<Rightarrow> rat \<Rightarrow> rat" where
  "li_experienceScore_of yearsOfExperience positions describedRatio =
     min ((if yearsOfExperience \<ge> 5 then 40 else yearsOfExperience * 8) +
          (if positions \<ge> 3 then 30 else of_nat positions * 10) +
          describedRatio * 30) 100"

definition li_educationScore_of :: "nat \<Rightarrow> bool \<Rightarrow> bool \<Rightarrow> rat" where
  "li_educationScore_of degrees hasAdvancedDegree hasField =
     min ((if degrees \<ge> 1 then 40 else 0) +
          (if hasAdvancedDegree then 30 else 0) +
          (if hasField then 30 else 0)) 100"

definition li_skillsScore_of :: "nat \<Rightarrow> rat \<Rightarrow> rat" where
  "li_skillsScore_of skillCount endorsementSum =
     min ((if skillCount \<ge> 10 then 50 else of_nat skillCount * 5) +
          (if endorsementSum \<ge> 50 then 50 else endorsementSum)) 100"

definition li_networkScore_of :: "rat \<Rightarrow> rat" where
  "li_networkScore_of conns = min (if conns \<ge> 500 then 100 else conns / 5) 100"

definition li_blend :: "rat \<Rightarrow> rat \<Rightarrow> rat \<Rightarrow> rat \<Rightarrow> rat" where
  "li_blend xs es ss ns =
     js_round (xs * (35 / 100) + es * (2 / 10) + ss * (25 / 100) + ns * (2 / 10))"

text \<open>\<^verbatim>\<open>LinkedInConnector.calculateMetrics\<close>\<close>

definition calculateMetrics_linkedin ::
  "year_month \<Rightarrow> LinkedInProfile \<Rightarrow> LinkedInExperience list \<Rightarrow> LinkedInEducation list
    \<Rightarrow> LinkedInSkill list \<Rightarrow> LinkedInCertification list \<Rightarrow> LinkedInMetrics option" where
  "calculateMetrics_linkedin today profile experiences education skills certifications =
     (let totalMonths =
            foldl (\<lambda>total exp.
                     total + max 0 (months_between (startDate exp)
                                      (case endDate exp of Some d \<Rightarrow> d | None \<Rightarrow> today)))
              0 experiences;
          yearsOfExperience = js_round (of_int totalMonths / 12 * 10) / 10
      in do {
        describedRatio \<leftarrow>
          js_div (of_nat (length (filter (\<lambda>e. truthy (exp_description e)) experiences)))
            (max (of_nat (length experiences)) 1);
        let experienceScore =
              li_experienceScore_of yearsOfExperience (length experiences) describedRatio;
        let hasAdvancedDegree =
              list_ex (\<lambda>e. degree_includes e ''master'' \<or> degree_includes e ''phd''
                             \<or> degree_includes e ''mba'') education;
        let educationScore =
              li_educationScore_of (length education) hasAdvancedDegree
                (list_ex (\<lambda>e. truthy (fieldOfStudy e)) education);
        let skillsScore =
              li_skillsScore_of (length skills) (foldl (\<lambda>sum s. sum + endorsements s) 0 skills);
        let networkScore = li_networkScore_of (connections profile);
        let overallScore = li_blend experienceScore educationScore skillsScore networkScore;
        let recommendations =
              push_if (yearsOfExperience < 2) ''Gain more professional experience'' @
              push_if (length (filter (\<lambda>e. truthy (exp_description e)) experiences) < length experiences)
                ''Add detailed descriptions to your work experiences'' @
              push_if (length skills < 10) ''Add more skills to your profile'' @
              push_if (connections profile < 100) ''Expand your professional network'' @
              push_if (\<not> truthy (headline profile)) ''Add a professional headline'' @
              push_if (\<not> truthy (li_bio profile)) ''Write a compelling summary/bio'' @
              push_if (length certifications = 0) ''Add relevant certifications to stand out'';
        Some \<lparr>experienceScore = js_round experienceScore,
              educationScore = js_round educationScore,
              skillsScore = js_round skillsScore,
              networkScore = js_round networkScore,
              li_overallScore = overallScore,
              li_recommendations = recommendations\<rparr>
      })"

section \<open>Aggregation service (aggregation.service.ts)\<close>

subsection \<open>Data\<close>

text \<open>
  \<^verbatim>\<open>calculateCompositeScore\<close> reads two fields of each platform's data:
  \<^verbatim>\<open>metrics.overallScore\<close> and \<^verbatim>\<open>metrics.recommendations\<close>. An entry of
  \<^verbatim>\<open>DigitalProfile.platforms\<close> is modelled by these two fields; an absent key is
  \<^const>\<open>None\<close>.
\<close>

record PlatformData =
  overallScore_of :: rat
  recommendations_of :: "string list"

record Platforms =
  p_github :: "PlatformData option"
  p_linkedin :: "PlatformData option"
  p_twitter :: "PlatformData option"
  p_devto :: "PlatformData option"
  p_hashnode :: "PlatformData option"
  p_medium :: "PlatformData option"

record DigitalProfile =
  dp_candidateId :: string
  dp_userId :: string
  dp_name :: string
  platforms :: Platforms
  aggregatedAt :: int

record ScoringWeights =
  github :: rat
  linkedin :: rat
  twitter :: rat
  blog :: rat

definition DEFAULT_WEIGHTS :: ScoringWeights where
  "DEFAULT_WEIGHTS = \<lparr>github = 35 / 100, linkedin = 30 / 100, twitter = 15 / 100, blog = 20 / 100\<rparr>"

text \<open>\<^verbatim>\<open>Partial<ScoringWeights>\<close>: every key may be absent.\<close>

record PartialScoringWeights =
  pw_github :: "rat option"
  pw_linkedin :: "rat option"
  pw_twitter :: "rat option"
  pw_blog :: "rat option"

record CompositeScore =
  overallScore :: rat
  githubScore :: "rat option"
  linkedinScore :: "rat option"
  blogScore :: "rat option"
  socialScore :: "rat option"
  platformScores :: "(string \<times> rat) list"
  weights_used :: ScoringWeights
  platformsConnected :: "string list"
  platformsMissing :: "string list"
  strengths :: "string list"
  improvements :: "string list"
  recommendations :: "string list"
  calculatedAt :: int

record ScoreUpdateResult =
  previous :: "CompositeScore option"
  current :: CompositeScore
  changed :: bool
  changeAmount :: rat

text \<open>The service object: its only field is the weight configuration.\<close>

record AggregationService =
  weights :: ScoringWeights

subsection \<open>Weights\<close>

text \<open>\<^verbatim>\<open>this.weights = { ...this.weights, ...weights }\<close>\<close>

definition setWeights :: "PartialScoringWeights \<Rightarrow> AggregationService \<Rightarrow> AggregationService" where
  "setWeights w this =
     this\<lparr>weights :=
       \<lparr>github = (case pw_github w of None \<Rightarrow> github (weights this) | Some v \<Rightarrow> v),
        linkedin = (case pw_linkedin w of None \<Rightarrow> linkedin (weights this) | Some v \<Rightarrow> v),
        twitter = (case pw_twitter w of None \<Rightarrow> twitter (weights this) | Some v \<Rightarrow> v),
        blog = (case pw_blog w of None \<Rightarrow> blog (weights this) | Some v \<Rightarrow> v)\<rparr>\<rparr>"

definition getWeights :: "AggregationService \<Rightarrow> ScoringWeights" where
  "getWeights this =
     \<lparr>github = github (weights this), linkedin = linkedin (weights this),
      twitter = twitter (weights this), blog = blog (weights this)\<rparr>"

subsection \<open>Composite score\<close>

text \<open>\<^verbatim>\<open>xs.join(sep)\<close>\<close>

fun join :: "string \<Rightarrow> string list \<Rightarrow> string" where
  "join sep [] = []"
| "join sep [x] = x"
| "join sep (x # y # ys) = x @ sep @ join sep (y # ys)"

text \<open>The pushes that one optional platform entry contributes to an array.\<close>

definition when_present :: "'a option \<Rightarrow> ('a \<Rightarrow> 'b list) \<Rightarrow> 'b list" where
  "when_present d f = (case d of None \<Rightarrow> [] | Some v \<Rightarrow> f v)"

definition when_absent :: "'a option \<Rightarrow> 'b list \<Rightarrow> 'b list" where
  "when_absent d xs = (case d of None \<Rightarrow> xs | Some v \<Rightarrow> [])"

definition blogScores_of :: "Platforms \<Rightarrow> rat list" where
  "blogScores_of ps =
     when_present (p_devto ps) (\<lambda>d. [overallScore_of d]) @
     when_present (p_hashnode ps) (\<lambda>d. [overallScore_of d]) @
     when_present (p_medium ps) (\<lambda>d. [overallScore_of d])"

definition combined_blogScore :: "rat list \<Rightarrow> rat option" where
  "combined_blogScore blogScores =
     (if length blogScores > 0
      then Some (js_round (foldl (+) 0 blogScores / of_nat (length blogScores)))
      else None)"

definition allRecommendations_of :: "Platforms \<Rightarrow> string list \<Rightarrow> string list" where
  "allRecommendations_of ps missing =
     when_present (p_github ps) recommendations_of @
     when_present (p_linkedin ps) recommendations_of @
     when_present (p_twitter ps) recommendations_of @
     when_present (p_devto ps) recommendations_of @
     when_present (p_hashnode ps) recommendations_of @
     when_present (p_medium ps) recommendations_of @
     (if length missing > 0 then [''Connect more platforms: '' @ join '', '' missing] else [])"

definition platformsMissing_of :: "Platforms \<Rightarrow> string list" where
  "platformsMissing_of ps =
     when_absent (p_github ps) [''github''] @
     when_absent (p_linkedin ps) [''linkedin''] @
     when_absent (p_twitter ps) [''twitter''] @
     (if length (blogScores_of ps) > 0 then [] else [''blog''])"

definition platformsConnected_of :: "Platforms \<Rightarrow> string list" where
  "platformsConnected_of ps =
     when_present (p_github ps) (\<lambda>d. [''github'']) @
     when_present (p_linkedin ps) (\<lambda>d. [''linkedin'']) @
     when_present (p_twitter ps) (\<lambda>d. [''twitter'']) @
     when_present (p_devto ps) (\<lambda>d. [''devto'']) @
     when_present (p_hashnode ps) (\<lambda>d. [''hashnode'']) @
     when_present (p_medium ps) (\<lambda>d. [''medium''])"

definition platformScores_of :: "Platforms \<Rightarrow> (string \<times> rat) list" where
  "platformScores_of ps =
     when_present (p_github ps) (\<lambda>d. [(''github'', overallScore_of d)]) @
     when_present (p_linkedin ps) (\<lambda>d. [(''linkedin'', overallScore_of d)]) @
     when_present (p_twitter ps) (\<lambda>d. [(''twitter'', overallScore_of d)]) @
     when_present (p_devto ps) (\<lambda>d. [(''devto'', overallScore_of d)]) @
     when_present (p_hashnode ps) (\<lambda>d. [(''hashnode'', overallScore_of d)]) @
     when_present (p_medium ps) (\<lambda>d. [(''medium'', overallScore_of d)])"

text \<open>The two threshold rules applied to every family score that is present.\<close>

definition strength_if :: "rat option \<Rightarrow> string \<Rightarrow> string list" where
  "strength_if s msg = (case s of None \<Rightarrow> [] | Some v \<Rightarrow> if v \<ge> 70 then [msg] else [])"

definition improvement_if :: "rat option \<Rightarrow> string \<Rightarrow> string list" where
  "improvement_if s msg = (case s of None \<Rightarrow> [] | Some v \<Rightarrow> if v < 50 then [msg] else [])"

text \<open>One \<^verbatim>\<open>if (score !== null) { weightedSum += ...; totalWeight += ... }\<close> block.\<close>

definition add_weighted :: "rat option \<Rightarrow> rat \<Rightarrow> rat \<times> rat \<Rightarrow> rat \<times> rat" where
  "add_weighted s w acc =
     (case s of None \<Rightarrow> acc | Some v \<Rightarrow> (fst acc + v * w, snd acc + w))"

definition calculateCompositeScore :: "AggregationService \<Rightarrow> int \<Rightarrow> DigitalProfile \<Rightarrow> CompositeScore" where
  "calculateCompositeScore this now profile =
     (let ps = platforms profile;
          githubScore = map_option overallScore_of (p_github ps);
          linkedinScore = map_option overallScore_of (p_linkedin ps);
          socialScore = map_option overallScore_of (p_twitter ps);
          blogScore = combined_blogScore (blogScores_of ps);
          platformsMissing = platformsMissing_of ps;
          allStrengths =
            strength_if githubScore ''Strong GitHub presence with quality code'' @
            strength_if linkedinScore ''Well-developed professional network'' @
            strength_if socialScore ''Strong social media engagement'' @
            strength_if blogScore ''Active content creator with quality blogs'';
          allImprovements =
            improvement_if githubScore ''Improve GitHub activity and project quality'' @
            improvement_if linkedinScore ''Enhance LinkedIn profile and connections'' @
            improvement_if socialScore ''Increase technical content on social media'' @
            improvement_if blogScore ''Write more technical blog content'';
          acc = add_weighted blogScore (blog (weights this))
                 (add_weighted socialScore (twitter (weights this))
                   (add_weighted linkedinScore (linkedin (weights this))
                     (add_weighted githubScore (github (weights this)) (0, 0))));
          weightedSum = fst acc;
          totalWeight = snd acc;
          overallScore = (if totalWeight > 0 then js_round (weightedSum / totalWeight) else 0);
          uniqueRecommendations = new_Set (allRecommendations_of ps platformsMissing)
      in \<lparr>overallScore = overallScore,
          githubScore = githubScore,
          linkedinScore = linkedinScore,
          blogScore = blogScore,
          socialScore = socialScore,
          platformScores = platformScores_of ps,
          weights_used = weights this,
          platformsConnected = platformsConnected_of ps,
          platformsMissing = platformsMissing,
          strengths = allStrengths,
          improvements = allImprovements,
          recommendations = take 10 uniqueRecommendations,
          calculatedAt = now\<rparr>)"

subsection \<open>Composite score in double precision\<close>

text \<open>
  \<^verbatim>\<open>calculateCompositeScore\<close> once more, with every arithmetic operation of the blog
  mean and of the weighted mean rounded to double precision. The scores
  and weights handed in are the doubles that the profile and the service hold. Nothing
  else differs from the definition above.
\<close>

definition combined_blogScore_ieee :: "rat list \<Rightarrow> rat option" where
  "combined_blogScore_ieee blogScores =
     (if length blogScores > 0
      then Some (js_round (fl64 (foldl (\<lambda>a b. fl64 (a + b)) 0 blogScores
                                  / of_nat (length blogScores))))
      else None)"

definition add_weighted_ieee :: "rat option \<Rightarrow> rat \<Rightarrow> rat \<times> rat \<Rightarrow> rat \<times> rat" where
  "add_weighted_ieee s w acc =
     (case s of None \<Rightarrow> acc
      | Some v \<Rightarrow> (fl64 (fst acc + fl64 (v * w)), fl64 (snd acc + w)))"

definition calculateCompositeScore_ieee ::
  "AggregationService \<Rightarrow> int \<Rightarrow> DigitalProfile \<Rightarrow> CompositeScore" where
  "calculateCompositeScore_ieee this now profile =
     (let ps = platforms profile;
          githubScore = map_option overallScore_of (p_github ps);
          linkedinScore = map_option overallScore_of (p_linkedin ps);
          socialScore = map_option overallScore_of (p_twitter ps);
          blogScore = combined_blogScore_ieee (blogScores_of ps);
          platformsMissing = platformsMissing_of ps;
          allStrengths =
            strength_if githubScore ''Strong GitHub presence with quality code'' @
            strength_if linkedinScore ''Well-developed professional network'' @
            strength_if socialScore ''Strong social media engagement'' @
            strength_if blogScore ''Active content creator with quality blogs'';
          allImprovements =
            improvement_if githubScore ''Improve GitHub activity and project quality'' @
            improvement_if linkedinScore ''Enhance LinkedIn profile and connections'' @
            improvement_if socialScore ''Increase technical content on social media'' @
            improvement_if blogScore ''Write more technical blog content'';
          acc = add_weighted_ieee blogScore (blog (weights this))
                 (add_weighted_ieee socialScore (twitter (weights this))
                   (add_weighted_ieee linkedinScore (linkedin (weights this))
                     (add_weighted_ieee githubScore (github (weights this)) (0, 0))));
          weightedSum = fst acc;
          totalWeight = snd acc;
          overallScore = (if totalWeight > 0 then js_round (fl64 (weightedSum / totalWeight)) else 0);
          uniqueRecommendations = new_Set (allRecommendations_of ps platformsMissing)
      in \<lparr>overallScore = overallScore,
          githubScore = githubScore,
          linkedinScore = linkedinScore,
          blogScore = blogScore,
          socialScore = socialScore,
          platformScores = platformScores_of ps,
          weights_used = weights this,
          platformsConnected = platformsConnected_of ps,
          platformsMissing = platformsMissing,
          strengths = allStrengths,
          improvements = allImprovements,
          recommendations = take 10 uniqueRecommendations,
          calculatedAt = now\<rparr>)"

subsection \<open>Persistence\<close>

text \<open>
  The database is reached through the Prisma client. The model keeps the two tables the
  service reads and writes, and the cache of platform data that the connectors'
  \<^verbatim>\<open>getCachedData\<close> reads: per candidate, the entry cached for each platform
  (\<^const>\<open>None\<close> when the connector returns \<^verbatim>\<open>null\<close> or throws; the loop catches the
  exception and leaves the key unset). Row identifiers are generated by the database;
  the model numbers the rows.
\<close>

datatype Platform = GITHUB | LINKEDIN | TWITTER | DEVTO | HASHNODE | MEDIUM

record CandidateProfile =
  cp_id :: string
  cp_userId :: string
  cp_name :: string
  platformConnections :: "Platform list"

record CandidateScore =
  cs_id :: nat
  cs_candidateId :: string
  compositeScore :: rat
  cs_githubScore :: "rat option"
  cs_linkedinScore :: "rat option"
  cs_blogScore :: "rat option"
  cs_socialScore :: "rat option"
  cs_strengths :: "string list"
  cs_improvements :: "string list"
  createdAt :: int
  updatedAt :: int

record Database =
  candidateProfile :: "CandidateProfile list"
  candidateScore :: "CandidateScore list"
  cachedData :: "string \<Rightarrow> Platforms"
  next_id :: nat

datatype service_error = Candidate_profile_not_found

text \<open>\<^verbatim>\<open>prisma.candidateProfile.findUnique({ where: { userId } })\<close>\<close>

definition findUnique_profile :: "Database \<Rightarrow> string \<Rightarrow> CandidateProfile option" where
  "findUnique_profile db userId = find (\<lambda>c. cp_userId c = userId) (candidateProfile db)"

text \<open>
  \<^verbatim>\<open>prisma.candidateScore.findMany({ where: { candidateId }, orderBy: { createdAt: 'desc' } })\<close>:
  the candidate's rows, latest creation time first.
\<close>

definition findMany_scores :: "Database \<Rightarrow> string \<Rightarrow> CandidateScore list" where
  "findMany_scores db candidateId =
     sort_key (\<lambda>r. - createdAt r) (filter (\<lambda>r. cs_candidateId r = candidateId) (candidateScore db))"

definition findFirst_score :: "Database \<Rightarrow> string \<Rightarrow> CandidateScore option" where
  "findFirst_score db candidateId =
     (case findMany_scores db candidateId of [] \<Rightarrow> None | r # rs \<Rightarrow> Some r)"

text \<open>
  \<^verbatim>\<open>prisma.candidateScore.upsert({ where: { id }, create, update })\<close>: when a row with
  the identifier exists it is updated in place, otherwise a row is created. The
  identifier \<^const>\<open>None\<close> stands for the empty string, which no row has.
\<close>

definition upsert_score ::
  "Database \<Rightarrow> nat option \<Rightarrow> CandidateScore \<Rightarrow> (CandidateScore \<Rightarrow> CandidateScore) \<Rightarrow> Database" where
  "upsert_score db ident create update =
     (case ident of
        Some i \<Rightarrow>
          if i \<in> set (map cs_id (candidateScore db))
          then db\<lparr>candidateScore := map (\<lambda>r. if cs_id r = i then update r else r) (candidateScore db)\<rparr>
          else db\<lparr>candidateScore := candidateScore db @ [create\<lparr>cs_id := next_id db\<rparr>],
                  next_id := Suc (next_id db)\<rparr>
      | None \<Rightarrow>
          db\<lparr>candidateScore := candidateScore db @ [create\<lparr>cs_id := next_id db\<rparr>],
              next_id := Suc (next_id db)\<rparr>)"

subsection \<open>Aggregation\<close>

text \<open>One iteration of the loop over \<^verbatim>\<open>platformConnections\<close> in \<^verbatim>\<open>aggregateProfile\<close>.\<close>

fun read_cached :: "Platforms \<Rightarrow> Platforms \<Rightarrow> Platform \<Rightarrow> Platforms" where
  "read_cached cache ps GITHUB = ps\<lparr>p_github := p_github cache\<rparr>"
| "read_cached cache ps LINKEDIN = ps\<lparr>p_linkedin := p_linkedin cache\<rparr>"
| "read_cached cache ps TWITTER = ps\<lparr>p_twitter := p_twitter cache\<rparr>"
| "read_cached cache ps DEVTO = ps\<lparr>p_devto := p_devto cache\<rparr>"
| "read_cached cache ps HASHNODE = ps\<lparr>p_hashnode := p_hashnode cache\<rparr>"
| "read_cached cache ps MEDIUM = ps\<lparr>p_medium := p_medium cache\<rparr>"

definition no_platforms :: Platforms where
  "no_platforms = \<lparr>p_github = None, p_linkedin = None, p_twitter = None,
                    p_devto = None, p_hashnode = None, p_medium = None\<rparr>"

definition aggregateProfile :: "Database \<Rightarrow> int \<Rightarrow> string \<Rightarrow> service_error + DigitalProfile" where
  "aggregateProfile db now userId =
     (case findUnique_profile db userId of
        None \<Rightarrow> Inl Candidate_profile_not_found
      | Some cp \<Rightarrow>
          Inr \<lparr>dp_candidateId = cp_id cp,
               dp_userId = cp_userId cp,
               dp_name = cp_name cp,
               platforms = foldl (read_cached (cachedData db (cp_id cp))) no_platforms (platformConnections cp),
               aggregatedAt = now\<rparr>)"

subsection \<open>Stored scores\<close>

text \<open>
  A stored row read back as a \<^verbatim>\<open>CompositeScore\<close>, as \<^verbatim>\<open>calculateAndStoreScore\<close> does
  for the previous score and \<^verbatim>\<open>getScoreHistory\<close> for every row: the breakdown and the
  recommendations are not stored and come back empty.
\<close>

definition score_of_row :: "AggregationService \<Rightarrow> CandidateScore \<Rightarrow> CompositeScore" where
  "score_of_row this r =
     \<lparr>overallScore = compositeScore r,
      githubScore = cs_githubScore r,
      linkedinScore = cs_linkedinScore r,
      blogScore = cs_blogScore r,
      socialScore = cs_socialScore r,
      platformScores = [],
      weights_used = weights this,
      platformsConnected = [],
      platformsMissing = [],
      strengths = cs_strengths r,
      improvements = cs_improvements r,
      recommendations = [],
      calculatedAt = createdAt r\<rparr>"

definition calculateAndStoreScore ::
  "AggregationService \<Rightarrow> Database \<Rightarrow> int \<Rightarrow> string \<Rightarrow> service_error + (ScoreUpdateResult \<times> Database)" where
  "calculateAndStoreScore this db now userId =
     (case findUnique_profile db userId of
        None \<Rightarrow> Inl Candidate_profile_not_found
      | Some candidate \<Rightarrow>
          (let previousScoreRecord = findFirst_score db (cp_id candidate);
               previous = map_option (score_of_row this) previousScoreRecord
           in case aggregateProfile db now userId of
                Inl e \<Rightarrow> Inl e
              | Inr profile \<Rightarrow>
                  (let current = calculateCompositeScore this now profile;
                       db' = upsert_score db (map_option cs_id previousScoreRecord)
                               \<lparr>cs_id = 0,
                                cs_candidateId = cp_id candidate,
                                compositeScore = overallScore current,
                                cs_githubScore = githubScore current,
                                cs_linkedinScore = linkedinScore current,
                                cs_blogScore = blogScore current,
                                cs_socialScore = socialScore current,
                                cs_strengths = strengths current,
                                cs_improvements = improvements current,
                                createdAt = now,
                                updatedAt = now\<rparr>
                               (\<lambda>r. r\<lparr>compositeScore := overallScore current,
                                      cs_githubScore := githubScore current,
                                      cs_linkedinScore := linkedinScore current,
                                      cs_blogScore := blogScore current,
                                      cs_socialScore := socialScore current,
                                      cs_strengths := strengths current,
                                      cs_improvements := improvements current,
                                      updatedAt := now\<rparr>);
                       changed = (case previous of None \<Rightarrow> False
                                  | Some p \<Rightarrow> overallScore p \<noteq> overallScore current);
                       changeAmount = (case previous of None \<Rightarrow> overallScore current
                                       | Some p \<Rightarrow> overallScore current - overallScore p)
                   in Inr (\<lparr>previous = previous, current = current,
                            changed = changed, changeAmount = changeAmount\<rparr>, db'))))"

definition getScoreHistory :: "AggregationService \<Rightarrow> Database \<Rightarrow> string \<Rightarrow> nat \<Rightarrow> CompositeScore list" where
  "getScoreHistory this db userId limit =
     (case findUnique_profile db userId of
        None \<Rightarrow> []
      | Some candidate \<Rightarrow> map (score_of_row this) (take limit (findMany_scores db (cp_id candidate))))"

section \<open>Notification service (notification.service.ts)\<close>

datatype NotificationType =
  SCORE_UPDATE | SCORE_IMPROVEMENT | SCORE_DECLINE | PLATFORM_CONNECTED
  | PLATFORM_DATA_REFRESHED | NEW_RECOMMENDATION | PROFILE_VIEW

record ScoreChangeData =
  scd_previousScore :: rat
  scd_currentScore :: rat
  scd_changeAmount :: rat
  affectedPlatforms :: "string list"
  scd_recommendations :: "string list"

datatype NotificationData =
  ScoreChange ScoreChangeData
  | Recommendations "string list"

text \<open>
  A notification, without its random identifier and its display texts (title and
  message), which nothing reads back.
\<close>

record Notification =
  n_userId :: string
  n_type :: NotificationType
  n_data :: NotificationData
  n_read :: bool
  n_createdAt :: int

text \<open>
  The in-memory store: per user, the notifications, newest first. A user without an entry
  has the empty list (\<^verbatim>\<open>notificationStore.get(userId) || []\<close>).
\<close>

type_synonym NotificationStore = "string \<Rightarrow> Notification list"

definition createNotification ::
  "NotificationStore \<Rightarrow> int \<Rightarrow> string \<Rightarrow> NotificationType \<Rightarrow> NotificationData
    \<Rightarrow> Notification \<times> NotificationStore" where
  "createNotification store now userId ty dat =
     (let notification = \<lparr>n_userId = userId, n_type = ty, n_data = dat,
                           n_read = False, n_createdAt = now\<rparr>;
          userNotifications = notification # store userId;
          kept = (if length userNotifications > 100 then take 100 userNotifications
                  else userNotifications)
      in (notification, store(userId := kept)))"

definition notifyScoreUpdate ::
  "NotificationStore \<Rightarrow> int \<Rightarrow> string \<Rightarrow> ScoreUpdateResult
    \<Rightarrow> Notification option \<times> NotificationStore" where
  "notifyScoreUpdate store now userId scoreResult =
     (if \<not> changed scoreResult then (None, store)
      else
        (let isImprovement = changeAmount scoreResult > 0;
             ty = (if isImprovement then SCORE_IMPROVEMENT else SCORE_DECLINE);
             dat = \<lparr>scd_previousScore =
                      (case previous scoreResult of None \<Rightarrow> 0 | Some p \<Rightarrow> overallScore p),
                    scd_currentScore = overallScore (current scoreResult),
                    scd_changeAmount = changeAmount scoreResult,
                    affectedPlatforms = platformsConnected (current scoreResult),
                    scd_recommendations = take 3 (recommendations (current scoreResult))\<rparr>;
             created = createNotification store now userId ty (ScoreChange dat)
         in (Some (fst created), snd created)))"

definition notifyNewRecommendations ::
  "NotificationStore \<Rightarrow> int \<Rightarrow> string \<Rightarrow> string list
    \<Rightarrow> Notification option \<times> NotificationStore" where
  "notifyNewRecommendations store now userId recs =
     (if length recs = 0 then (None, store)
      else
        (let created = createNotification store now userId NEW_RECOMMENDATION (Recommendations recs)
         in (Some (fst created), snd created)))"

text \<open>\<^verbatim>\<open>ScoreUpdateService.onPlatformDataChanged\<close>\<close>

definition onPlatformDataChanged ::
  "AggregationService \<Rightarrow> Database \<Rightarrow> NotificationStore \<Rightarrow> int \<Rightarrow> string \<Rightarrow> Platform
    \<Rightarrow> service_error + (ScoreUpdateResult \<times> Database \<times> NotificationStore)" where
  "onPlatformDataChanged agg db store now userId platform =
     (case calculateAndStoreScore agg db now userId of
        Inl e \<Rightarrow> Inl e
      | Inr (result, db') \<Rightarrow>
          (let store1 = snd (notifyScoreUpdate store now userId result);
               store2 =
                 (if length (recommendations (current result)) > 0
                  then
                    (let newRecs =
                           (case previous result of
                              Some p \<Rightarrow> filter (\<lambda>r. r \<notin> set (recommendations p))
                                          (recommendations (current result))
                            | None \<Rightarrow> recommendations (current result))
                     in if length newRecs > 0
                        then snd (notifyNewRecommendations store1 now userId newRecs)
                        else store1)
                  else store1)
           in Inr (result, db', store2)))"

section \<open>Closed forms of the scores\<close>

text \<open>
  The unrounded sub-scores of each calculator as functions of its input, with every
  quotient written as a plain division. The lemmas named \<open>*_closed_form\<close> below show
  that the calculators return exactly these values (rounded where the source rounds).
\<close>

definition in_range :: "rat \<Rightarrow> bool" where
  "in_range x \<longleftrightarrow> 0 \<le> x \<and> x \<le> 100"

subsection \<open>GitHub\<close>

definition gh_ownRepos :: "GitHubRepository list \<Rightarrow> GitHubRepository list" where
  "gh_ownRepos repositories = filter (\<lambda>r. \<not> isForked r) repositories"

definition gh_ratio :: "(GitHubRepository \<Rightarrow> bool) \<Rightarrow> GitHubRepository list \<Rightarrow> rat" where
  "gh_ratio P own = of_nat (length (filter P own)) / max (of_nat (length own)) 1"

definition github_codeQuality :: "GitHubRepository list \<Rightarrow> rat" where
  "github_codeQuality rs =
     gh_codeQualityScore (gh_ratio (\<lambda>r. truthy (description r)) (gh_ownRepos rs))
       (gh_ratio (\<lambda>r. truthy (license r)) (gh_ownRepos rs))
       (gh_ratio (\<lambda>r. length (topics r) > 0) (gh_ownRepos rs))
       (sum_list (map stargazersCount (gh_ownRepos rs)))"

definition github_languageDiversity :: "GitHubRepository list \<Rightarrow> rat" where
  "github_languageDiversity rs =
     min (of_nat (length (new_Set (concat (map (\<lambda>r. map fst (languages r)) (gh_ownRepos rs))))) / 10) 1 * 100"

definition github_projectImpact :: "GitHubUserProfile \<Rightarrow> GitHubRepository list \<Rightarrow> rat" where
  "github_projectImpact p rs =
     gh_projectImpactScore (sum_list (map stargazersCount (gh_ownRepos rs)))
       (sum_list (map forksCount (gh_ownRepos rs))) (gh_followers p)"

definition github_collaboration :: "GitHubContributionStats \<Rightarrow> rat" where
  "github_collaboration st = gh_collaborationScore (totalPRs st) (totalReviews st) (totalIssues st)"

definition github_overall ::
  "GitHubUserProfile \<Rightarrow> GitHubRepository list \<Rightarrow> GitHubContributionStats \<Rightarrow> rat" where
  "github_overall p rs st =
     gh_blend (github_codeQuality rs) (github_languageDiversity rs)
       (gh_commitFrequency (totalCommits st)) (github_collaboration st) (github_projectImpact p rs)"

subsection \<open>Twitter\<close>

definition tw_original :: "TwitterTweet list \<Rightarrow> TwitterTweet list" where
  "tw_original tweets = filter (\<lambda>t. \<not> isRetweet t) tweets"

definition twitter_engagementRate :: "TwitterProfile \<Rightarrow> TwitterTweet list \<Rightarrow> rat" where
  "twitter_engagementRate p tweets =
     (if tw_followers p > 0
      then (sum_list (map likes (tw_original tweets)) + sum_list (map retweets (tw_original tweets)) * 2)
             / of_nat (length (tw_original tweets)) / tw_followers p * 100
      else 0)"

definition twitter_engagement :: "TwitterProfile \<Rightarrow> TwitterTweet list \<Rightarrow> rat" where
  "twitter_engagement p tweets =
     tw_engagementScore_of
       (sum_list (map likes (tw_original tweets)) / of_nat (length (tw_original tweets)))
       (sum_list (map retweets (tw_original tweets)) / of_nat (length (tw_original tweets)))
       (twitter_engagementRate p tweets)"

definition twitter_technical :: "TwitterTweet list \<Rightarrow> rat" where
  "twitter_technical tweets =
     min (of_nat (length (filter isTechnicalTweet (tw_original tweets)))
            / of_nat (length (tw_original tweets)) * 100) 100"

definition twitter_influence :: "TwitterProfile \<Rightarrow> rat" where
  "twitter_influence p = tw_influenceScore_of (tw_followers p) (listedCount p) (verified p)"

definition twitter_tweetsPerWeek :: "TwitterTweet list \<Rightarrow> rat" where
  "twitter_tweetsPerWeek tweets =
     (let sorted = sort_key tweet_createdAt (tw_original tweets)
      in if length sorted \<ge> 2
         then of_nat (length (tw_original tweets))
                / max 1 (of_int (tweet_createdAt (sorted ! (length sorted - 1)) - tweet_createdAt (sorted ! 0))
                           / (1000 * 60 * 60 * 24 * 7))
         else 0)"

definition twitter_overall :: "TwitterProfile \<Rightarrow> TwitterTweet list \<Rightarrow> rat" where
  "twitter_overall p tweets =
     (if tw_original tweets = [] then min ((tw_followers p / 1000) * 5) 25
      else tw_blend (twitter_engagement p tweets) (twitter_technical tweets) (twitter_influence p)
             (tw_consistencyScore_of (twitter_tweetsPerWeek tweets)))"

subsection \<open>Blog\<close>

definition blog_postsPerMonth :: "BlogPost list \<Rightarrow> rat" where
  "blog_postsPerMonth posts =
     (let sorted = sort_key publishedAt posts
      in of_nat (length posts)
           / max 1 (of_int (publishedAt (sorted ! (length sorted - 1)) - publishedAt (sorted ! 0))
                      / (1000 * 60 * 60 * 24 * 30)))"

definition blog_contentQuality :: "BlogPost list \<Rightarrow> rat" where
  "blog_contentQuality posts =
     bl_contentQualityScore_of
       (sum_list (map readingTime posts) / of_nat (length posts))
       (of_nat (length (filter (\<lambda>p. truthy (coverImage p)) posts)) / of_nat (length posts))
       (of_nat (length (filter long_excerpt posts)) / of_nat (length posts))
       (of_nat (length posts))"

definition blog_engagement :: "BlogProfile \<Rightarrow> BlogPost list \<Rightarrow> rat" where
  "blog_engagement p posts =
     bl_engagementScore_of
       (sum_list (map reactions posts) / of_nat (length posts))
       (sum_list (map comments posts) / of_nat (length posts))
       (bl_followers p)"

definition blog_topicDiversity :: "BlogPost list \<Rightarrow> rat" where
  "blog_topicDiversity posts =
     min ((of_nat (length (foldl count_key [] (concat (map tags posts)))) / 10) * 100) 100"

definition blog_overall :: "BlogProfile \<Rightarrow> BlogPost list \<Rightarrow> rat" where
  "blog_overall p posts =
     (if posts = [] then 0
      else bl_blend (blog_contentQuality posts) (bl_consistencyScore_of (blog_postsPerMonth posts))
             (blog_engagement p posts) (blog_topicDiversity posts))"

subsection \<open>LinkedIn\<close>

definition li_totalMonths :: "year_month \<Rightarrow> LinkedInExperience list \<Rightarrow> int" where
  "li_totalMonths today experiences =
     sum_list (map (\<lambda>e. max 0 (months_between (startDate e)
                                  (case endDate e of Some d \<Rightarrow> d | None \<Rightarrow> today))) experiences)"

definition li_yearsOfExperience :: "year_month \<Rightarrow> LinkedInExperience list \<Rightarrow> rat" where
  "li_yearsOfExperience today experiences =
     js_round (of_int (li_totalMonths today experiences) / 12 * 10) / 10"

definition linkedin_experience :: "year_month \<Rightarrow> LinkedInExperience list \<Rightarrow> rat" where
  "linkedin_experience today experiences =
     li_experienceScore_of (li_yearsOfExperience today experiences) (length experiences)
       (of_nat (length (filter (\<lambda>e. truthy (exp_description e)) experiences))
          / max (of_nat (length experiences)) 1)"

definition linkedin_education :: "LinkedInEducation list \<Rightarrow> rat" where
  "linkedin_education education =
     li_educationScore_of (length education)
       (list_ex (\<lambda>e. degree_includes e ''master'' \<or> degree_includes e ''phd''
                      \<or> degree_includes e ''mba'') education)
       (list_ex (\<lambda>e. truthy (fieldOfStudy e)) education)"

definition linkedin_skills :: "LinkedInSkill list \<Rightarrow> rat" where
  "linkedin_skills skills = li_skillsScore_of (length skills) (sum_list (map endorsements skills))"

definition linkedin_overall ::
  "year_month \<Rightarrow> LinkedInProfile \<Rightarrow> LinkedInExperience list \<Rightarrow> LinkedInEducation list
    \<Rightarrow> LinkedInSkill list \<Rightarrow> rat" where
  "linkedin_overall today p experiences education skills =
     li_blend (linkedin_experience today experiences) (linkedin_education education)
       (linkedin_skills skills) (li_networkScore_of (connections p))"

section \<open>Valid inputs and the order on inputs\<close>

text \<open>
  An input is valid when the counts that the scores read are non-negative; a profile is
  in range when the overall score of every platform it holds lies in [0,100], as the
  calculators produce it.
\<close>

definition valid_github :: "GitHubUserProfile \<Rightarrow> GitHubRepository list \<Rightarrow> GitHubContributionStats \<Rightarrow> bool" where
  "valid_github p rs st \<longleftrightarrow>
     0 \<le> gh_followers p \<and> list_all (\<lambda>r. 0 \<le> stargazersCount r \<and> 0 \<le> forksCount r) rs
     \<and> 0 \<le> totalCommits st \<and> 0 \<le> totalPRs st \<and> 0 \<le> totalIssues st \<and> 0 \<le> totalReviews st"

definition valid_linkedin :: "LinkedInProfile \<Rightarrow> LinkedInSkill list \<Rightarrow> bool" where
  "valid_linkedin p skills \<longleftrightarrow> 0 \<le> connections p \<and> list_all (\<lambda>s. 0 \<le> endorsements s) skills"

definition valid_twitter :: "TwitterProfile \<Rightarrow> TwitterTweet list \<Rightarrow> bool" where
  "valid_twitter p tweets \<longleftrightarrow>
     0 \<le> tw_followers p \<and> 0 \<le> listedCount p \<and> list_all (\<lambda>t. 0 \<le> likes t \<and> 0 \<le> retweets t) tweets"

definition valid_blog :: "BlogProfile \<Rightarrow> BlogPost list \<Rightarrow> bool" where
  "valid_blog p posts \<longleftrightarrow>
     0 \<le> bl_followers p
     \<and> list_all (\<lambda>b. 0 \<le> readingTime b \<and> 0 \<le> reactions b \<and> 0 \<le> comments b) posts"

definition platforms_in_range :: "Platforms \<Rightarrow> bool" where
  "platforms_in_range ps \<longleftrightarrow>
     list_all (\<lambda>d. in_range (overallScore_of d))
       (List.map_filter id [p_github ps, p_linkedin ps, p_twitter ps,
                            p_devto ps, p_hashnode ps, p_medium ps])"

text \<open>
  One input is below another when the two agree on every field that is not a number and
  every number of the first is at most the corresponding number of the second. Raising
  a single numeric input while holding all others fixed is the special case in which
  all numbers but one are equal. For Twitter the order holds the follower count fixed.
\<close>

definition numbers_le :: "(string \<times> rat) list \<Rightarrow> (string \<times> rat) list \<Rightarrow> bool" where
  "numbers_le m m' \<longleftrightarrow> map fst m = map fst m' \<and> list_all2 (\<le>) (map snd m) (map snd m')"

definition gh_profile_le :: "GitHubUserProfile \<Rightarrow> GitHubUserProfile \<Rightarrow> bool" where
  "gh_profile_le p p' \<longleftrightarrow>
     gh_bio p = gh_bio p' \<and> gh_followers p \<le> gh_followers p' \<and> gh_following p \<le> gh_following p'
     \<and> publicRepos p \<le> publicRepos p' \<and> publicGists p \<le> publicGists p'"

definition gh_repo_le :: "GitHubRepository \<Rightarrow> GitHubRepository \<Rightarrow> bool" where
  "gh_repo_le r r' \<longleftrightarrow>
     description r = description r' \<and> numbers_le (languages r) (languages r')
     \<and> stargazersCount r \<le> stargazersCount r' \<and> forksCount r \<le> forksCount r'
     \<and> watchersCount r \<le> watchersCount r' \<and> openIssuesCount r \<le> openIssuesCount r'
     \<and> pushedAt r = pushedAt r' \<and> isForked r = isForked r' \<and> topics r = topics r'
     \<and> license r = license r'"

definition gh_stats_le :: "GitHubContributionStats \<Rightarrow> GitHubContributionStats \<Rightarrow> bool" where
  "gh_stats_le s s' \<longleftrightarrow>
     totalCommits s \<le> totalCommits s' \<and> totalPRs s \<le> totalPRs s' \<and> totalIssues s \<le> totalIssues s'
     \<and> totalReviews s \<le> totalReviews s' \<and> numbers_le (contributionsByDay s) (contributionsByDay s')
     \<and> currentStreak s \<le> currentStreak s' \<and> longestStreak s \<le> longestStreak s'"

definition li_profile_le :: "LinkedInProfile \<Rightarrow> LinkedInProfile \<Rightarrow> bool" where
  "li_profile_le p p' \<longleftrightarrow>
     headline p = headline p' \<and> li_bio p = li_bio p' \<and> connections p \<le> connections p'"

definition education_le :: "LinkedInEducation \<Rightarrow> LinkedInEducation \<Rightarrow> bool" where
  "education_le e e' \<longleftrightarrow>
     degree e = degree e' \<and> fieldOfStudy e = fieldOfStudy e'
     \<and> rel_option (\<le>) (startYear e) (startYear e') \<and> rel_option (\<le>) (endYear e) (endYear e')"

definition skill_le :: "LinkedInSkill \<Rightarrow> LinkedInSkill \<Rightarrow> bool" where
  "skill_le s s' \<longleftrightarrow> skill_name s = skill_name s' \<and> endorsements s \<le> endorsements s'"

definition tw_profile_le :: "TwitterProfile \<Rightarrow> TwitterProfile \<Rightarrow> bool" where
  "tw_profile_le p p' \<longleftrightarrow>
     tw_bio p = tw_bio p' \<and> verified p = verified p' \<and> tw_followers p = tw_followers p'
     \<and> tw_following p \<le> tw_following p' \<and> tweetCount p \<le> tweetCount p'
     \<and> listedCount p \<le> listedCount p'"

definition tweet_le :: "TwitterTweet \<Rightarrow> TwitterTweet \<Rightarrow> bool" where
  "tweet_le t t' \<longleftrightarrow>
     tweet_text t = tweet_text t' \<and> tweet_createdAt t = tweet_createdAt t'
     \<and> likes t \<le> likes t' \<and> retweets t \<le> retweets t' \<and> replies t \<le> replies t'
     \<and> quotes t \<le> quotes t' \<and> rel_option (\<le>) (impressions t) (impressions t')
     \<and> isRetweet t = isRetweet t' \<and> isReply t = isReply t' \<and> hashtags t = hashtags t'
     \<and> mentions t = mentions t' \<and> urls t = urls t'"

definition bl_profile_le :: "BlogProfile \<Rightarrow> BlogProfile \<Rightarrow> bool" where
  "bl_profile_le p p' \<longleftrightarrow>
     bl_followers p \<le> bl_followers p' \<and> bl_following p \<le> bl_following p' \<and> totalPosts p \<le> totalPosts p'"

definition post_le :: "BlogPost \<Rightarrow> BlogPost \<Rightarrow> bool" where
  "post_le b b' \<longleftrightarrow>
     excerpt b = excerpt b' \<and> tags b = tags b' \<and> publishedAt b = publishedAt b'
     \<and> readingTime b \<le> readingTime b' \<and> reactions b \<le> reactions b' \<and> comments b \<le> comments b'
     \<and> rel_option (\<le>) (views b) (views b') \<and> coverImage b = coverImage b'"

section \<open>The specification's formulas\<close>

text \<open>
  The definitions of this section follow the words of the specification; the theorems
  compare them with the functions above, which follow the source.
\<close>

text \<open>
  The platform families whose score in the composite is non-null, each with its weight:
  (score, weight) pairs in the order github, linkedin, twitter, blog.
\<close>

definition present_families :: "ScoringWeights \<Rightarrow> CompositeScore \<Rightarrow> (rat \<times> rat) list" where
  "present_families w c =
     when_present (githubScore c) (\<lambda>s. [(s, github w)]) @
     when_present (linkedinScore c) (\<lambda>s. [(s, linkedin w)]) @
     when_present (socialScore c) (\<lambda>s. [(s, twitter w)]) @
     when_present (blogScore c) (\<lambda>s. [(s, blog w)])"

text \<open>round(\<Sum> score \<times> weight / \<Sum> weight) over the present families, 0 when there is none.\<close>

definition renormalized_overall :: "(rat \<times> rat) list \<Rightarrow> rat" where
  "renormalized_overall fam =
     (if fam = [] then 0
      else js_round (sum_list (map (\<lambda>(s, w). s * w) fam) / sum_list (map snd fam)))"










text \<open>
  The recommendation lists of the platforms that the input profile holds, concatenated in
  family order, and the names of the families that the input profile does not hold, in
  the same order; the blog family is missing when none of its three providers is held.
\<close>

definition family_recommendations :: "Platforms \<Rightarrow> string list" where
  "family_recommendations ps =
     concat (map recommendations_of
       (List.map_filter id [p_github ps, p_linkedin ps, p_twitter ps,
                            p_devto ps, p_hashnode ps, p_medium ps]))"

definition missing_families :: "Platforms \<Rightarrow> string list" where
  "missing_families ps =
     map fst (filter snd
       [(''github'', p_github ps = None), (''linkedin'', p_linkedin ps = None),
        (''twitter'', p_twitter ps = None),
        (''blog'', p_devto ps = None \<and> p_hashnode ps = None \<and> p_medium ps = None)])"

definition connect_more :: "string list \<Rightarrow> string list" where
  "connect_more missing =
     (if missing = [] then [] else [''Connect more platforms: '' @ join '', '' missing])"

section \<open>Example inputs\<close>

definition default_service :: AggregationService where
  "default_service = \<lparr>weights = DEFAULT_WEIGHTS\<rparr>"



definition profile_of :: "Platforms \<Rightarrow> DigitalProfile" where
  "profile_of ps =
     \<lparr>dp_candidateId = ''c1'', dp_userId = ''u1'', dp_name = ''Ada'',
      platforms = ps, aggregatedAt = 0\<rparr>"

text \<open>Code hosting at 80 and the professional network at 60; no other platform.\<close>

definition github_and_linkedin :: Platforms where
  "github_and_linkedin =
     no_platforms
       \<lparr>p_github := Some \<lparr>overallScore_of = 80, recommendations_of = [''a'', ''b'']\<rparr>,
        p_linkedin := Some \<lparr>overallScore_of = 60, recommendations_of = [''b'', ''c'']\<rparr>\<rparr>"



text \<open>GitHub at 1 and Twitter at 36; no other platform.\<close>

definition github_1_twitter_36 :: Platforms where
  "github_1_twitter_36 =
     no_platforms
       \<lparr>p_github := Some \<lparr>overallScore_of = 1, recommendations_of = []\<rparr>,
        p_twitter := Some \<lparr>overallScore_of = 36, recommendations_of = []\<rparr>\<rparr>"



text \<open>
  One candidate, user \<open>u1\<close>, connected to GitHub only; the cache holds GitHub data with
  the given overall score and one recommendation. No score has been stored yet.
\<close>

definition github_only :: "rat \<Rightarrow> Platforms" where
  "github_only s =
     no_platforms
       \<lparr>p_github := Some \<lparr>overallScore_of = s,
                           recommendations_of = [''Maintain consistent commit activity'']\<rparr>\<rparr>"

definition db0 :: Database where
  "db0 =
     \<lparr>candidateProfile =
        [\<lparr>cp_id = ''c1'', cp_userId = ''u1'', cp_name = ''Ada'', platformConnections = [GITHUB]\<rparr>],
      candidateScore = [],
      cachedData = (\<lambda>c. github_only 50),
      next_id = 1\<rparr>"

text \<open>
  Three recalculations for \<open>u1\<close>, at times 1, 2 and 3. Before the third, a refresh has
  replaced the cached GitHub data: its overall score is 70 instead of 50.
\<close>

definition run1 :: "service_error + (ScoreUpdateResult \<times> Database)" where
  "run1 = calculateAndStoreScore default_service db0 1 ''u1''"

definition db1 :: Database where
  "db1 = snd (projr run1)"

definition run2 :: "service_error + (ScoreUpdateResult \<times> Database)" where
  "run2 = calculateAndStoreScore default_service db1 2 ''u1''"

definition db2 :: Database where
  "db2 = (snd (projr run2))\<lparr>cachedData := (\<lambda>c. github_only 70)\<rparr>"

definition run3 :: "service_error + (ScoreUpdateResult \<times> Database)" where
  "run3 = calculateAndStoreScore default_service db2 3 ''u1''"

definition db3 :: Database where
  "db3 = snd (projr run3)"

text \<open>
  Two notifications of a platform data change for \<open>u1\<close>, at times 1 and 2, with the
  cache unchanged in between; the notification store starts empty.
\<close>

definition change1 :: "service_error + (ScoreUpdateResult \<times> Database \<times> NotificationStore)" where
  "change1 = onPlatformDataChanged default_service db0 (\<lambda>u. []) 1 ''u1'' GITHUB"

definition change2 :: "service_error + (ScoreUpdateResult \<times> Database \<times> NotificationStore)" where
  "change2 =
     onPlatformDataChanged default_service (fst (snd (projr change1))) (snd (snd (projr change1)))
       2 ''u1'' GITHUB"

text \<open>Inputs of the four calculators, with one count left open in each.\<close>

definition gh_profile_ex :: GitHubUserProfile where
  "gh_profile_ex =
     \<lparr>gh_bio = None, gh_followers = 20, gh_following = 5, publicRepos = 2, publicGists = 0\<rparr>"

definition gh_repo_ex :: "rat \<Rightarrow> GitHubRepository" where
  "gh_repo_ex stars =
     \<lparr>description = Some ''a command line tool'', languages = [(''TypeScript'', 1000)],
      stargazersCount = stars, forksCount = 3, watchersCount = 1, openIssuesCount = 0,
      pushedAt = 100, isForked = False, topics = [''cli''], license = None\<rparr>"

definition gh_stats_ex :: GitHubContributionStats where
  "gh_stats_ex =
     \<lparr>totalCommits = 100, totalPRs = 10, totalIssues = 5, totalReviews = 2,
      contributionsByDay = [], currentStreak = 1, longestStreak = 4\<rparr>"

definition li_profile_ex :: "rat \<Rightarrow> LinkedInProfile" where
  "li_profile_ex conns = \<lparr>headline = Some ''Engineer'', li_bio = None, connections = conns\<rparr>"

definition li_experience_ex :: LinkedInExperience where
  "li_experience_ex =
     \<lparr>startDate = (2020, 0), endDate = Some (2023, 6), isCurrent = False,
      exp_description = Some ''Built services''\<rparr>"

definition li_education_ex :: LinkedInEducation where
  "li_education_ex =
     \<lparr>degree = Some ''Master of Science'', fieldOfStudy = Some ''Computing'',
      startYear = Some 2014, endYear = Some 2019\<rparr>"

definition li_skill_ex :: LinkedInSkill where
  "li_skill_ex = \<lparr>skill_name = ''Haskell'', endorsements = 7\<rparr>"

definition tw_profile_ex :: "rat \<Rightarrow> TwitterProfile" where
  "tw_profile_ex followers =
     \<lparr>tw_bio = None, tw_followers = followers, tw_following = 10, tweetCount = 1,
      listedCount = 0, verified = False\<rparr>"

definition tweet_ex :: "rat \<Rightarrow> TwitterTweet" where
  "tweet_ex n =
     \<lparr>tweet_text = ''Notes from the garden'', tweet_createdAt = 0, likes = n, retweets = 0,
      replies = 0, quotes = 0, impressions = None, isRetweet = False, isReply = False,
      hashtags = [], mentions = [], urls = []\<rparr>"

definition bl_profile_ex :: BlogProfile where
  "bl_profile_ex = \<lparr>bl_followers = 40, bl_following = 3, totalPosts = 1\<rparr>"

definition post_ex :: "rat \<Rightarrow> BlogPost" where
  "post_ex n =
     \<lparr>excerpt = None, tags = [''rust'', ''cli''], publishedAt = 0, readingTime = 4,
      reactions = n, comments = 1, views = None, coverImage = None\<rparr>"

section \<open>Properties of the weight configuration\<close>

text \<open>
  C10. For every current weight configuration and every partial argument \<open>p\<close>,
  \<^verbatim>\<open>setWeights(p)\<close> sets exactly the fields named in \<open>p\<close> to the values of \<open>p\<close>
  and leaves every other field unchanged; \<^verbatim>\<open>getWeights()\<close> afterwards returns exactly
  this merged four-field configuration. Nothing rescales the weights to sum 1.
\<close>

theorem setWeights_merges_named_fields:
  "getWeights (setWeights p this) =
     \<lparr>github = (case pw_github p of Some v \<Rightarrow> v | None \<Rightarrow> github (getWeights this)),
      linkedin = (case pw_linkedin p of Some v \<Rightarrow> v | None \<Rightarrow> linkedin (getWeights this)),
      twitter = (case pw_twitter p of Some v \<Rightarrow> v | None \<Rightarrow> twitter (getWeights this)),
      blog = (case pw_blog p of Some v \<Rightarrow> v | None \<Rightarrow> blog (getWeights this))\<rparr>"
  by (simp add: getWeights_def setWeights_def split: option.splits)

section \<open>Properties of the composite score\<close>

lemma overallScore_unfold:
  "overallScore (calculateCompositeScore this now p) =
     (let c = calculateCompositeScore this now p;
          acc = add_weighted (blogScore c) (blog (weights this))
                 (add_weighted (socialScore c) (twitter (weights this))
                   (add_weighted (linkedinScore c) (linkedin (weights this))
                     (add_weighted (githubScore c) (github (weights this)) (0, 0))))
      in if snd acc > 0 then js_round (fst acc / snd acc) else 0)"
  by (simp add: calculateCompositeScore_def Let_def)

lemma overallScore_renormalized:
  assumes "0 < github (weights this)" "0 < linkedin (weights this)"
    "0 < twitter (weights this)" "0 < blog (weights this)"
  shows "overallScore (calculateCompositeScore this now p) =
         renormalized_overall (present_families (weights this) (calculateCompositeScore this now p))"
  unfolding overallScore_unfold Let_def
  using assms
  by (cases "githubScore (calculateCompositeScore this now p)";
      cases "linkedinScore (calculateCompositeScore this now p)";
      cases "socialScore (calculateCompositeScore this now p)";
      cases "blogScore (calculateCompositeScore this now p)")
    (simp_all add: present_families_def renormalized_overall_def add_weighted_def
       when_present_def add_pos_pos add.assoc)

subsection \<open>The blog family\<close>

lemma foldl_plus_sum_list: "foldl (+) a xs = a + sum_list (xs :: rat list)"
  by (induction xs arbitrary: a) simp_all


lemma blogScore_unfold:
  "blogScore (calculateCompositeScore this now p) = combined_blogScore (blogScores_of (platforms p))"
  by (simp add: calculateCompositeScore_def Let_def)




subsection \<open>Recommendations\<close>

lemma new_Set_snoc: "new_Set (xs @ [x]) = set_add (new_Set xs) x"
  by (simp add: new_Set_def)

lemma new_Set_first_occurrences: "new_Set xs = rev (remdups (rev xs))"
proof (induction xs rule: rev_induct)
  case Nil
  show ?case by (simp add: new_Set_def)
next
  case (snoc x xs)
  then show ?case by (simp add: new_Set_snoc set_add_def)
qed

lemma distinct_new_Set: "distinct (new_Set xs)"
  by (simp add: new_Set_first_occurrences)

lemma platformsMissing_unfold:
  "platformsMissing (calculateCompositeScore this now p) = platformsMissing_of (platforms p)"
  by (simp add: calculateCompositeScore_def Let_def)

lemma platformsMissing_are_missing_families:
  "platformsMissing_of ps = missing_families ps"
  by (simp add: platformsMissing_of_def missing_families_def blogScores_of_def
      when_absent_def when_present_def split: option.splits)

lemma allRecommendations_of_families:
  "allRecommendations_of ps missing = family_recommendations ps @ connect_more missing"
  by (simp add: allRecommendations_of_def family_recommendations_def connect_more_def
      when_present_def split: option.splits)

lemma recommendations_unfold:
  "recommendations (calculateCompositeScore this now p) =
     take 10 (new_Set (allRecommendations_of (platforms p) (platformsMissing_of (platforms p))))"
  by (simp add: calculateCompositeScore_def Let_def)

text \<open>
  C8. For every DigitalProfile, the recommendations of the composite score contain no
  duplicate strings and are at most 10; they are the first 10 of the first occurrences,
  in insertion order, of the family recommendations (in family order) followed by the
  single "Connect more platforms" entry, which names every family that the input profile
  does not hold and is appended after all family recommendations. With no platform
  connected, the entry names all four families.
\<close>

theorem recommendations_deduplicated_capped_ordered:
  "distinct (recommendations (calculateCompositeScore this now p))
   \<and> length (recommendations (calculateCompositeScore this now p)) \<le> 10
   \<and> recommendations (calculateCompositeScore this now p) =
       take 10 (rev (remdups (rev
         (family_recommendations (platforms p) @
          connect_more (missing_families (platforms p))))))
   \<and> platformsMissing (calculateCompositeScore this now p) = missing_families (platforms p)
   \<and> recommendations (calculateCompositeScore this now (profile_of no_platforms)) =
       [''Connect more platforms: github, linkedin, twitter, blog'']"
proof -
  let ?c = "calculateCompositeScore this now p"
  have r: "recommendations ?c =
           take 10 (new_Set (family_recommendations (platforms p) @
                             connect_more (missing_families (platforms p))))"
    by (simp only: recommendations_unfold allRecommendations_of_families
        platformsMissing_are_missing_families)
  have d: "distinct (recommendations ?c)"
    unfolding r by (rule distinct_take) (rule distinct_new_Set)
  have l: "length (recommendations ?c) \<le> 10"
    unfolding r by simp
  have m: "platformsMissing ?c = missing_families (platforms p)"
    by (simp only: platformsMissing_unfold platformsMissing_are_missing_families)
  have n: "recommendations (calculateCompositeScore this now (profile_of no_platforms)) =
           [''Connect more platforms: github, linkedin, twitter, blog'']"
    by (simp add: recommendations_unfold profile_of_def no_platforms_def
        platformsMissing_of_def blogScores_of_def allRecommendations_of_def
        when_absent_def when_present_def new_Set_def set_add_def)
  from d l r m n show ?thesis by (simp add: new_Set_first_occurrences)
qed

section \<open>Properties of the stored scores\<close>

text \<open>
  C3. For a candidate that exists, \<^verbatim>\<open>calculateAndStoreScore\<close> returns a result whose
  \<open>previous\<close> is the latest stored score (if any), with \<open>changed\<close> true exactly when a
  previous score exists and its overall score differs from the current one, and
  \<open>changeAmount\<close> = current overall \<open>-\<close> previous overall when a previous score exists,
  else the current overall. For successive overall scores 50, 50, 70 the second call
  yields changed = false and changeAmount = 0, the third changed = true and
  changeAmount = 20; the example database below runs these three calls.
\<close>

theorem change_detection:
  assumes "findUnique_profile db userId = Some candidate"
  shows "\<exists>res db'. calculateAndStoreScore this db now userId = Inr (res, db')
           \<and> previous res = map_option (score_of_row this) (findFirst_score db (cp_id candidate))
           \<and> changed res = (\<exists>p. previous res = Some p \<and> overallScore p \<noteq> overallScore (current res))
           \<and> changeAmount res =
               (case previous res of
                  Some p \<Rightarrow> overallScore (current res) - overallScore p
                | None \<Rightarrow> overallScore (current res))"
  using assms
  by (cases "findFirst_score db (cp_id candidate)")
    (simp_all add: calculateAndStoreScore_def aggregateProfile_def Let_def)

theorem change_detection_witness:
  "findUnique_profile db2 ''u1'' =
     Some \<lparr>cp_id = ''c1'', cp_userId = ''u1'', cp_name = ''Ada'', platformConnections = [GITHUB]\<rparr>
   \<and> (\<exists>res db'. run3 = Inr (res, db')
         \<and> changed res = (\<exists>p. previous res = Some p \<and> overallScore p \<noteq> overallScore (current res)))
   \<and> map (\<lambda>r. overallScore (current (fst (projr r)))) [run1, run2, run3] = [50, 50, 70]
   \<and> map (\<lambda>r. changed (fst (projr r))) [run2, run3] = [False, True]
   \<and> map (\<lambda>r. changeAmount (fst (projr r))) [run2, run3] = [0, 20]"
proof -
  have c: "findUnique_profile db2 ''u1'' =
     Some \<lparr>cp_id = ''c1'', cp_userId = ''u1'', cp_name = ''Ada'', platformConnections = [GITHUB]\<rparr>"
    by code_simp
  from change_detection [OF c, of default_service 3]
  have "\<exists>res db'. run3 = Inr (res, db')
         \<and> changed res = (\<exists>p. previous res = Some p \<and> overallScore p \<noteq> overallScore (current res))"
    unfolding run3_def by blast
  moreover have "map (\<lambda>r. overallScore (current (fst (projr r)))) [run1, run2, run3] = [50, 50, 70]"
    by code_simp
  moreover have "map (\<lambda>r. changed (fst (projr r))) [run2, run3] = [False, True]"
    by code_simp
  moreover have "map (\<lambda>r. changeAmount (fst (projr r))) [run2, run3] = [0, 20]"
    by code_simp
  ultimately show ?thesis using c by blast
qed

lemma findFirst_score_in_table:
  assumes "findFirst_score db c = Some r"
  shows "cs_id r \<in> set (map cs_id (candidateScore db))"
proof -
  from assms obtain rs where "findMany_scores db c = r # rs"
    by (auto simp: findFirst_score_def split: list.splits)
  then have "r \<in> set (findMany_scores db c)" by simp
  then show ?thesis by (auto simp: findMany_scores_def)
qed

text \<open>
  Once the candidate has a stored score, a recalculation leaves the number of stored rows
  unchanged: the latest row is updated in place.
\<close>

lemma recalculation_updates_in_place:
  assumes "findUnique_profile db userId = Some candidate"
    and "findFirst_score db (cp_id candidate) = Some r"
    and "calculateAndStoreScore this db now userId = Inr (res, db')"
  shows "map cs_id (candidateScore db') = map cs_id (candidateScore db)"
proof -
  have "cs_id r \<in> set (map cs_id (candidateScore db))"
    by (rule findFirst_score_in_table [OF assms(2)])
  then have "cs_id r \<in> cs_id ` set (candidateScore db)" by simp
  with assms show ?thesis
    by (auto simp: calculateAndStoreScore_def aggregateProfile_def Let_def upsert_score_def
        comp_def)
qed

text \<open>
  C2 at three successive recalculations for one candidate (overall scores 50, 50, 70):
  every call but the first updates the latest stored row instead of appending one. The
  history holds one entry after the first call and one entry after the third; that entry
  is the row created at time 1, now carrying the score 70 and the update time 3.
\<close>

theorem score_history_overwritten:
  "map overallScore (getScoreHistory default_service db1 ''u1'' 10) = [50]
   \<and> length (getScoreHistory default_service db3 ''u1'' 10) = 1
   \<and> map overallScore (getScoreHistory default_service db3 ''u1'' 10) = [70]
   \<and> map calculatedAt (getScoreHistory default_service db3 ''u1'' 10) = [1]
   \<and> map cs_id (candidateScore db1) = map cs_id (candidateScore db3)
   \<and> map updatedAt (candidateScore db3) = [3]"
  by code_simp

section \<open>Properties of the notifications\<close>

text \<open>
  The previous score that a recalculation returns never carries a recommendation.
\<close>

lemma previous_has_no_recommendations:
  assumes "calculateAndStoreScore this db now userId = Inr (res, db')"
    and "previous res = Some p"
  shows "recommendations p = []"
  using assms
  by (auto simp: calculateAndStoreScore_def aggregateProfile_def Let_def score_of_row_def
      split: option.splits)

text \<open>
  C9 at two successive notifications of a platform data change with unchanged data: both
  recalculations produce the same two recommendations, so the second has no new one.
  The stored score carries no recommendations, the previous score handed to the
  comparison has the empty list, and the second call emits a new-recommendations event
  again, with both recommendations as its payload.
\<close>

theorem new_recommendations_event_repeated:
  "recommendations (current (fst (projr change1))) =
     [''Maintain consistent commit activity'', ''Connect more platforms: linkedin, twitter, blog'']
   \<and> recommendations (current (fst (projr change2))) =
     [''Maintain consistent commit activity'', ''Connect more platforms: linkedin, twitter, blog'']
   \<and> map_option recommendations (previous (fst (projr change2))) = Some []
   \<and> map (\<lambda>n. (n_createdAt n, n_type n, n_data n)) (snd (snd (projr change2)) ''u1'') =
     [(2, NEW_RECOMMENDATION, Recommendations
         [''Maintain consistent commit activity'', ''Connect more platforms: linkedin, twitter, blog'']),
      (1, NEW_RECOMMENDATION, Recommendations
         [''Maintain consistent commit activity'', ''Connect more platforms: linkedin, twitter, blog''])]"
  by code_simp

section \<open>Properties of the platform calculators\<close>

subsection \<open>Shared facts\<close>

lemma foldl_add_sum_list: "foldl (\<lambda>sum r. sum + f r) a xs = a + sum_list (map f xs :: rat list)"
  by (induction xs arbitrary: a) simp_all

lemma js_div_Some [simp]: "b \<noteq> 0 \<Longrightarrow> js_div a b = Some (a / b)"
  by (simp add: js_div_def)

lemma max_one_nonzero [simp]: "max (x :: rat) 1 \<noteq> 0" "max 1 (x :: rat) \<noteq> 0"
  by (simp_all add: max_def)

lemma element_at_Some [simp]: "i < length xs \<Longrightarrow> element_at xs i = Some (xs ! i)"
  by (simp add: element_at_def)

lemma js_round_mono: "x \<le> y \<Longrightarrow> js_round x \<le> js_round y"
  by (simp add: js_round_def floor_mono)

lemma js_round_of_int [simp]: "js_round (of_int n) = of_int n"
  by (simp add: js_round_def) linarith

lemma js_round_range: "in_range x \<Longrightarrow> in_range (js_round x)"
  using js_round_mono[of 0 x] js_round_mono[of x 100] js_round_of_int[of 0] js_round_of_int[of 100]
  by (simp add: in_range_def)

lemma sum_list_nonneg_all: "list_all (\<lambda>r. 0 \<le> f r) xs \<Longrightarrow> 0 \<le> sum_list (map f xs :: rat list)"
  by (induction xs) simp_all

lemma list_all2_filter_same:
  assumes "list_all2 R xs ys" and "\<And>x y. R x y \<Longrightarrow> P x = Q y"
  shows "list_all2 R (filter P xs) (filter Q ys)"
  using assms by (induction rule: list_all2_induct) auto

lemma list_all2_sum_mono:
  assumes "list_all2 R xs ys" and "\<And>x y. R x y \<Longrightarrow> f x \<le> (g y :: rat)"
  shows "sum_list (map f xs) \<le> sum_list (map g ys)"
  using assms by (induction rule: list_all2_induct) (auto intro: add_mono)

lemma list_all2_map_eq:
  assumes "list_all2 R xs ys" and "\<And>x y. R x y \<Longrightarrow> f x = g y"
  shows "map f xs = map g ys"
  using assms by (induction rule: list_all2_induct) auto

lemma list_all2_count_eq:
  assumes "list_all2 R xs ys" and "\<And>x y. R x y \<Longrightarrow> P x = Q y"
  shows "length (filter P xs) = length (filter Q ys)"
  by (rule list_all2_lengthD [OF list_all2_filter_same [OF assms]])

lemma list_all2_insort_key:
  assumes "list_all2 R xs ys" and "R x y" and "\<And>a b. R a b \<Longrightarrow> f a = g b"
  shows "list_all2 R (insort_key f x xs) (insort_key g y ys)"
  using assms by (induction rule: list_all2_induct) auto

lemma list_all2_sort_key:
  assumes "list_all2 R xs ys" and "\<And>a b. R a b \<Longrightarrow> f a = g b"
  shows "list_all2 R (sort_key f xs) (sort_key g ys)"
  using assms by (induction rule: list_all2_induct) (auto intro: list_all2_insort_key)

lemma foldl_add_sum_list_int: "foldl (\<lambda>sum r. sum + f r) a xs = a + sum_list (map f xs :: int list)"
  by (induction xs arbitrary: a) simp_all

lemma js_round_nonneg: "0 \<le> x \<Longrightarrow> 0 \<le> js_round x"
  using js_round_mono [of 0 x] js_round_of_int [of 0] by simp

lemma ratio_max_nonneg: "0 \<le> (of_nat k :: rat) / max (of_nat n) 1"
  by simp

lemma list_all2_list_ex_eq:
  assumes "list_all2 R xs ys" and "\<And>x y. R x y \<Longrightarrow> P x = Q y"
  shows "list_ex P xs = list_ex Q ys"
  using assms by (induction rule: list_all2_induct) auto

subsection \<open>GitHub\<close>

lemma github_closed_form:
  "\<exists>recs. calculateMetrics_github six p rs st =
     Some \<lparr>codeQualityScore = js_round (github_codeQuality rs),
           languageDiversity = js_round (github_languageDiversity rs),
           commitFrequency = js_round (gh_commitFrequency (totalCommits st)),
           collaborationScore = js_round (github_collaboration st),
           projectImpactScore = js_round (github_projectImpact p rs),
           gh_overallScore = github_overall p rs st,
           gh_recommendations = recs\<rparr>"
  by (simp add: calculateMetrics_github_def Let_def gh_ownRepos_def gh_ratio_def
      github_codeQuality_def github_languageDiversity_def github_projectImpact_def
      github_collaboration_def github_overall_def foldl_add_sum_list)

lemma gh_ratio_range: "0 \<le> gh_ratio P xs \<and> gh_ratio P xs \<le> 1"
proof -
  have "length (filter P xs) \<le> length xs" by simp
  then have "(of_nat (length (filter P xs)) :: rat) \<le> of_nat (length xs)"
    by (simp only: of_nat_le_iff)
  then have "(of_nat (length (filter P xs)) :: rat) \<le> max (of_nat (length xs)) 1"
    by (rule order_trans) (rule max.cobounded1)
  moreover have "(0::rat) < max (of_nat (length xs)) 1" by simp
  ultimately show ?thesis by (simp add: gh_ratio_def)
qed

lemma blend5_range:
  assumes "in_range a" "in_range b" "in_range c" "in_range d" "in_range e"
  shows "in_range (gh_blend a b c d e)"
  unfolding gh_blend_def
  by (rule js_round_range) (use assms in \<open>simp add: in_range_def\<close>)

lemma github_ranges:
  assumes "valid_github p rs st"
  shows "in_range (github_codeQuality rs)" "in_range (github_languageDiversity rs)"
    "in_range (gh_commitFrequency (totalCommits st))" "in_range (github_collaboration st)"
    "in_range (github_projectImpact p rs)"
proof -
  let ?own = "gh_ownRepos rs"
  have own: "list_all (\<lambda>r. 0 \<le> stargazersCount r \<and> 0 \<le> forksCount r) ?own"
    using assms by (simp add: valid_github_def gh_ownRepos_def list_all_iff)
  have stars: "0 \<le> sum_list (map stargazersCount ?own)"
    by (rule sum_list_nonneg_all) (use own in \<open>simp add: list_all_iff\<close>)
  have forks: "0 \<le> sum_list (map forksCount ?own)"
    by (rule sum_list_nonneg_all) (use own in \<open>simp add: list_all_iff\<close>)
  note r = gh_ratio_range
  show "in_range (github_codeQuality rs)"
    unfolding github_codeQuality_def
    using r[of "\<lambda>r. truthy (description r)" ?own] r[of "\<lambda>r. truthy (license r)" ?own]
      r[of "\<lambda>r. length (topics r) > 0" ?own] stars
    by (simp add: in_range_def gh_codeQualityScore_def min_def)
  show "in_range (github_languageDiversity rs)"
    by (simp add: in_range_def min_def github_languageDiversity_def)
  show "in_range (gh_commitFrequency (totalCommits st))"
    using assms by (simp add: in_range_def gh_commitFrequency_def valid_github_def min_def)
  show "in_range (github_collaboration st)"
    using assms by (simp add: in_range_def github_collaboration_def gh_collaborationScore_def valid_github_def min_def)
  show "in_range (github_projectImpact p rs)"
    using assms stars forks
    by (simp add: in_range_def github_projectImpact_def gh_projectImpactScore_def valid_github_def min_def)
qed

lemma github_bounds:
  assumes "valid_github p rs st"
  shows "\<exists>m. calculateMetrics_github six p rs st = Some m
     \<and> in_range (codeQualityScore m) \<and> in_range (languageDiversity m) \<and> in_range (commitFrequency m)
     \<and> in_range (collaborationScore m) \<and> in_range (projectImpactScore m) \<and> in_range (gh_overallScore m)"
proof -
  note g = github_ranges [OF assms]
  obtain recs where "calculateMetrics_github six p rs st =
     Some \<lparr>codeQualityScore = js_round (github_codeQuality rs),
           languageDiversity = js_round (github_languageDiversity rs),
           commitFrequency = js_round (gh_commitFrequency (totalCommits st)),
           collaborationScore = js_round (github_collaboration st),
           projectImpactScore = js_round (github_projectImpact p rs),
           gh_overallScore = github_overall p rs st,
           gh_recommendations = recs\<rparr>"
    using github_closed_form by blast
  then show ?thesis
    by (simp add: g js_round_range github_overall_def blend5_range)
qed

lemma gh_blend_mono:
  assumes "a \<le> a'" "b \<le> b'" "c \<le> c'" "d \<le> d'" "e \<le> e'"
  shows "gh_blend a b c d e \<le> gh_blend a' b' c' d' e'"
  unfolding gh_blend_def by (rule js_round_mono) (use assms in simp)

lemma gh_codeQualityScore_mono:
  "s \<le> s' \<Longrightarrow> gh_codeQualityScore a b c s \<le> gh_codeQualityScore a b c s'"
  unfolding gh_codeQualityScore_def by linarith

lemma gh_commitFrequency_mono: "c \<le> c' \<Longrightarrow> gh_commitFrequency c \<le> gh_commitFrequency c'"
  unfolding gh_commitFrequency_def by linarith

lemma gh_collaborationScore_mono:
  "a \<le> a' \<Longrightarrow> b \<le> b' \<Longrightarrow> c \<le> c' \<Longrightarrow> gh_collaborationScore a b c \<le> gh_collaborationScore a' b' c'"
  unfolding gh_collaborationScore_def by linarith

lemma gh_projectImpactScore_mono:
  "a \<le> a' \<Longrightarrow> b \<le> b' \<Longrightarrow> c \<le> c' \<Longrightarrow> gh_projectImpactScore a b c \<le> gh_projectImpactScore a' b' c'"
  unfolding gh_projectImpactScore_def by linarith

lemma github_monotone:
  assumes p: "gh_profile_le p p'" and rs: "list_all2 gh_repo_le rs rs'" and st: "gh_stats_le st st'"
  shows "github_overall p rs st \<le> github_overall p' rs' st'"
proof -
  have own: "list_all2 gh_repo_le (gh_ownRepos rs) (gh_ownRepos rs')"
    unfolding gh_ownRepos_def by (rule list_all2_filter_same [OF rs]) (simp add: gh_repo_le_def)
  have len: "length (gh_ownRepos rs) = length (gh_ownRepos rs')"
    by (rule list_all2_lengthD [OF own])
  have ratio: "gh_ratio P (gh_ownRepos rs) = gh_ratio P (gh_ownRepos rs')"
    if "\<And>x y. gh_repo_le x y \<Longrightarrow> P x = P y" for P
    unfolding gh_ratio_def by (simp only: len list_all2_count_eq [OF own that])
  have r1: "gh_ratio (\<lambda>r. truthy (description r)) (gh_ownRepos rs)
            = gh_ratio (\<lambda>r. truthy (description r)) (gh_ownRepos rs')"
    by (rule ratio) (simp add: gh_repo_le_def)
  have r2: "gh_ratio (\<lambda>r. truthy (license r)) (gh_ownRepos rs)
            = gh_ratio (\<lambda>r. truthy (license r)) (gh_ownRepos rs')"
    by (rule ratio) (simp add: gh_repo_le_def)
  have r3: "gh_ratio (\<lambda>r. length (topics r) > 0) (gh_ownRepos rs)
            = gh_ratio (\<lambda>r. length (topics r) > 0) (gh_ownRepos rs')"
    by (rule ratio) (simp add: gh_repo_le_def)
  have stars: "sum_list (map stargazersCount (gh_ownRepos rs)) \<le> sum_list (map stargazersCount (gh_ownRepos rs'))"
    by (rule list_all2_sum_mono [OF own]) (simp add: gh_repo_le_def)
  have forks: "sum_list (map forksCount (gh_ownRepos rs)) \<le> sum_list (map forksCount (gh_ownRepos rs'))"
    by (rule list_all2_sum_mono [OF own]) (simp add: gh_repo_le_def)
  have langs: "map (\<lambda>r. map fst (languages r)) (gh_ownRepos rs) = map (\<lambda>r. map fst (languages r)) (gh_ownRepos rs')"
    by (rule list_all2_map_eq [OF own]) (simp add: gh_repo_le_def numbers_le_def)
  have cq: "github_codeQuality rs \<le> github_codeQuality rs'"
    unfolding github_codeQuality_def r1 r2 r3
    by (rule gh_codeQualityScore_mono [OF stars])
  have ld: "github_languageDiversity rs \<le> github_languageDiversity rs'"
    by (simp add: github_languageDiversity_def langs)
  have cf: "gh_commitFrequency (totalCommits st) \<le> gh_commitFrequency (totalCommits st')"
    using st by (simp add: gh_commitFrequency_mono gh_stats_le_def)
  have co: "github_collaboration st \<le> github_collaboration st'"
    using st by (simp add: github_collaboration_def gh_collaborationScore_mono gh_stats_le_def)
  have im: "github_projectImpact p rs \<le> github_projectImpact p' rs'"
    using p stars forks
    by (simp add: github_projectImpact_def gh_projectImpactScore_mono gh_profile_le_def)
  show ?thesis
    unfolding github_overall_def by (rule gh_blend_mono [OF cq ld cf co im])
qed

subsection \<open>Twitter\<close>

lemma twitter_closed_form_empty:
  assumes "tw_original tweets = []"
  shows "calculateMetrics_twitter p tweets =
     Some \<lparr>tw_engagementScore = 0, technicalContentScore = 0,
           influenceScore = min ((tw_followers p / 1000) * 20) 100,
           tw_consistencyScore = 0,
           tw_overallScore = twitter_overall p tweets,
           tw_recommendations = [''Tweet more to build your social presence'']\<rparr>"
  using assms by (simp add: calculateMetrics_twitter_def tw_original_def twitter_overall_def)

lemma twitter_closed_form:
  assumes "tw_original tweets \<noteq> []"
  shows "\<exists>recs. calculateMetrics_twitter p tweets =
     Some \<lparr>tw_engagementScore = js_round (twitter_engagement p tweets),
           technicalContentScore = js_round (twitter_technical tweets),
           influenceScore = js_round (twitter_influence p),
           tw_consistencyScore = js_round (tw_consistencyScore_of (twitter_tweetsPerWeek tweets)),
           tw_overallScore = twitter_overall p tweets,
           tw_recommendations = recs\<rparr>"
proof -
  have n: "(of_nat (length (filter (\<lambda>t. \<not> isRetweet t) tweets)) :: rat) \<noteq> 0"
    using assms by (simp add: tw_original_def)
  show ?thesis
    using assms n
    by (simp add: calculateMetrics_twitter_def Let_def tw_original_def twitter_overall_def
        twitter_engagement_def twitter_engagementRate_def twitter_technical_def
        twitter_influence_def twitter_tweetsPerWeek_def foldl_add_sum_list)
qed

lemma tw_engagementScore_of_range:
  "0 \<le> a \<Longrightarrow> 0 \<le> b \<Longrightarrow> 0 \<le> c \<Longrightarrow> in_range (tw_engagementScore_of a b c)"
  by (auto simp: tw_engagementScore_of_def in_range_def)

lemma tw_engagementScore_of_mono:
  "a \<le> a' \<Longrightarrow> b \<le> b' \<Longrightarrow> c \<le> c' \<Longrightarrow> tw_engagementScore_of a b c \<le> tw_engagementScore_of a' b' c'"
  unfolding tw_engagementScore_of_def by (intro min.mono add_mono) auto

lemma tw_influenceScore_of_range:
  "0 \<le> a \<Longrightarrow> 0 \<le> b \<Longrightarrow> in_range (tw_influenceScore_of a b v)"
  by (auto simp: tw_influenceScore_of_def in_range_def)

lemma tw_influenceScore_of_mono:
  "a \<le> a' \<Longrightarrow> b \<le> b' \<Longrightarrow> tw_influenceScore_of a b v \<le> tw_influenceScore_of a' b' v"
  unfolding tw_influenceScore_of_def by (intro min.mono add_mono) auto

lemma tw_consistencyScore_of_range: "0 \<le> a \<Longrightarrow> in_range (tw_consistencyScore_of a)"
  by (auto simp: tw_consistencyScore_of_def in_range_def)

lemma tw_blend_range:
  assumes "in_range a" "in_range b" "in_range c" "in_range d"
  shows "in_range (tw_blend a b c d)"
  unfolding tw_blend_def by (rule js_round_range) (use assms in \<open>simp add: in_range_def\<close>)

lemma tw_blend_mono:
  assumes "a \<le> a'" "b \<le> b'" "c \<le> c'" "d \<le> d'"
  shows "tw_blend a b c d \<le> tw_blend a' b' c' d'"
  unfolding tw_blend_def by (rule js_round_mono) (use assms in simp)

lemma twitter_ranges:
  assumes v: "valid_twitter p tweets" and ne: "tw_original tweets \<noteq> []"
  shows "in_range (twitter_engagement p tweets)" "in_range (twitter_technical tweets)"
    "in_range (twitter_influence p)" "in_range (tw_consistencyScore_of (twitter_tweetsPerWeek tweets))"
proof -
  let ?own = "tw_original tweets"
  have n: "(0::rat) < of_nat (length ?own)" using ne by simp
  have own: "list_all (\<lambda>t. 0 \<le> likes t \<and> 0 \<le> retweets t) ?own"
    using v by (simp add: valid_twitter_def tw_original_def list_all_iff)
  have l: "0 \<le> sum_list (map likes ?own)"
    by (rule sum_list_nonneg_all) (use own in \<open>simp add: list_all_iff\<close>)
  have r: "0 \<le> sum_list (map retweets ?own)"
    by (rule sum_list_nonneg_all) (use own in \<open>simp add: list_all_iff\<close>)
  have rate: "0 \<le> twitter_engagementRate p tweets"
    using l r n by (simp add: twitter_engagementRate_def)
  show "in_range (twitter_engagement p tweets)"
    unfolding twitter_engagement_def
    by (rule tw_engagementScore_of_range) (use l r n rate in simp_all)
  show "in_range (twitter_technical tweets)"
    using n by (simp add: twitter_technical_def in_range_def)
  show "in_range (twitter_influence p)"
    unfolding twitter_influence_def
    by (rule tw_influenceScore_of_range) (use v in \<open>simp_all add: valid_twitter_def\<close>)
  have "0 \<le> twitter_tweetsPerWeek tweets"
    by (simp add: twitter_tweetsPerWeek_def Let_def)
  then show "in_range (tw_consistencyScore_of (twitter_tweetsPerWeek tweets))"
    by (rule tw_consistencyScore_of_range)
qed

lemma twitter_bounds:
  assumes v: "valid_twitter p tweets"
  shows "\<exists>m. calculateMetrics_twitter p tweets = Some m
     \<and> in_range (tw_engagementScore m) \<and> in_range (technicalContentScore m)
     \<and> in_range (influenceScore m) \<and> in_range (tw_consistencyScore m) \<and> in_range (tw_overallScore m)"
proof (cases "tw_original tweets = []")
  case True
  have f: "0 \<le> tw_followers p" using v by (simp add: valid_twitter_def)
  show ?thesis
    using f by (simp add: twitter_closed_form_empty [OF True] twitter_overall_def True in_range_def)
next
  case False
  note g = twitter_ranges [OF v False]
  from twitter_closed_form [OF False, of p] obtain recs where
    "calculateMetrics_twitter p tweets =
     Some \<lparr>tw_engagementScore = js_round (twitter_engagement p tweets),
           technicalContentScore = js_round (twitter_technical tweets),
           influenceScore = js_round (twitter_influence p),
           tw_consistencyScore = js_round (tw_consistencyScore_of (twitter_tweetsPerWeek tweets)),
           tw_overallScore = twitter_overall p tweets,
           tw_recommendations = recs\<rparr>" by blast
  then show ?thesis
    by (simp add: g js_round_range twitter_overall_def False tw_blend_range)
qed

lemma twitter_monotone:
  assumes p: "tw_profile_le p p'" and ts: "list_all2 tweet_le tweets tweets'"
  shows "twitter_overall p tweets \<le> twitter_overall p' tweets'"
proof -
  let ?own = "tw_original tweets" and ?own' = "tw_original tweets'"
  have own: "list_all2 tweet_le ?own ?own'"
    unfolding tw_original_def by (rule list_all2_filter_same [OF ts]) (simp add: tweet_le_def)
  have len: "length ?own = length ?own'"
    by (rule list_all2_lengthD [OF own])
  have f: "tw_followers p = tw_followers p'" using p by (simp add: tw_profile_le_def)
  show ?thesis
  proof (cases "?own = []")
    case True
    then have "?own' = []" using len by simp
    then show ?thesis by (simp add: twitter_overall_def True f)
  next
    case False
    then have ne': "?own' \<noteq> []" using len by auto
    have n: "(0::rat) < of_nat (length ?own')" using ne' by simp
    have l: "sum_list (map likes ?own) \<le> sum_list (map likes ?own')"
      by (rule list_all2_sum_mono [OF own]) (simp add: tweet_le_def)
    have r: "sum_list (map retweets ?own) \<le> sum_list (map retweets ?own')"
      by (rule list_all2_sum_mono [OF own]) (simp add: tweet_le_def)
    have avl: "sum_list (map likes ?own) / of_nat (length ?own)
               \<le> sum_list (map likes ?own') / of_nat (length ?own')"
      unfolding len by (rule divide_right_mono [OF l]) simp
    have avr: "sum_list (map retweets ?own) / of_nat (length ?own)
               \<le> sum_list (map retweets ?own') / of_nat (length ?own')"
      unfolding len by (rule divide_right_mono [OF r]) simp
    have rate: "twitter_engagementRate p tweets \<le> twitter_engagementRate p' tweets'"
    proof (cases "tw_followers p' > 0")
      case True
      have "(sum_list (map likes ?own) + sum_list (map retweets ?own) * 2) / of_nat (length ?own')
            \<le> (sum_list (map likes ?own') + sum_list (map retweets ?own') * 2) / of_nat (length ?own')"
        by (rule divide_right_mono) (use l r in simp_all)
      then have "(sum_list (map likes ?own) + sum_list (map retweets ?own) * 2) / of_nat (length ?own')
                   / tw_followers p'
            \<le> (sum_list (map likes ?own') + sum_list (map retweets ?own') * 2) / of_nat (length ?own')
                   / tw_followers p'"
        by (rule divide_right_mono) (use True in simp)
      then have "(sum_list (map likes ?own) + sum_list (map retweets ?own) * 2) / of_nat (length ?own')
                   / tw_followers p' * 100
            \<le> (sum_list (map likes ?own') + sum_list (map retweets ?own') * 2) / of_nat (length ?own')
                   / tw_followers p' * 100"
        by (rule mult_right_mono) simp
      then show ?thesis
        unfolding twitter_engagementRate_def f len by (simp only: True if_True)
    next
      case False
      then show ?thesis by (simp add: twitter_engagementRate_def f)
    qed
    have e: "twitter_engagement p tweets \<le> twitter_engagement p' tweets'"
      unfolding twitter_engagement_def by (rule tw_engagementScore_of_mono [OF avl avr rate])
    have tech: "length (filter isTechnicalTweet ?own) = length (filter isTechnicalTweet ?own')"
      by (rule list_all2_count_eq [OF own]) (simp add: tweet_le_def isTechnicalTweet_def)
    have t: "twitter_technical tweets \<le> twitter_technical tweets'"
      by (simp add: twitter_technical_def tech len)
    have i: "twitter_influence p \<le> twitter_influence p'"
      using p by (simp add: twitter_influence_def tw_profile_le_def tw_influenceScore_of_mono)
    have sorted: "list_all2 tweet_le (sort_key tweet_createdAt ?own) (sort_key tweet_createdAt ?own')"
      by (rule list_all2_sort_key [OF own]) (simp add: tweet_le_def)
    have nth: "tweet_createdAt (sort_key tweet_createdAt ?own ! i)
               = tweet_createdAt (sort_key tweet_createdAt ?own' ! i)" if "i < length ?own" for i
      using list_all2_nthD [OF sorted, of i] that by (simp add: tweet_le_def)
    have w: "twitter_tweetsPerWeek tweets = twitter_tweetsPerWeek tweets'"
      using False by (simp add: twitter_tweetsPerWeek_def Let_def len [symmetric] nth)
    show ?thesis
      using False ne' by (simp add: twitter_overall_def w tw_blend_mono [OF e t i])
  qed
qed

subsection \<open>Blog\<close>

lemma blog_closed_form_empty:
  "calculateMetrics_blog p [] =
     Some \<lparr>contentQualityScore = 0, bl_consistencyScore = 0, bl_engagementScore = 0,
           topicDiversityScore = 0, bl_overallScore = 0,
           bl_recommendations = [''Start writing blog posts to build your content portfolio'']\<rparr>"
  by (simp add: calculateMetrics_blog_def)

lemma blog_closed_form:
  assumes "posts \<noteq> []"
  shows "\<exists>recs. calculateMetrics_blog p posts =
     Some \<lparr>contentQualityScore = js_round (blog_contentQuality posts),
           bl_consistencyScore = js_round (bl_consistencyScore_of (blog_postsPerMonth posts)),
           bl_engagementScore = js_round (blog_engagement p posts),
           topicDiversityScore = js_round (blog_topicDiversity posts),
           bl_overallScore = blog_overall p posts,
           bl_recommendations = recs\<rparr>"
proof -
  have n: "(of_nat (length posts) :: rat) \<noteq> 0" "0 < length posts"
    using assms by simp_all
  show ?thesis
    using assms n
    by (simp add: calculateMetrics_blog_def Let_def blog_overall_def blog_contentQuality_def
        blog_engagement_def blog_topicDiversity_def blog_postsPerMonth_def foldl_add_sum_list)
qed

lemma bl_contentQualityScore_of_range:
  "0 \<le> a \<Longrightarrow> 0 \<le> b \<Longrightarrow> 0 \<le> c \<Longrightarrow> 0 \<le> d \<Longrightarrow> in_range (bl_contentQualityScore_of a b c d)"
  by (auto simp: bl_contentQualityScore_of_def in_range_def min_def)

lemma bl_contentQualityScore_of_mono:
  "a \<le> a' \<Longrightarrow> bl_contentQualityScore_of a b c d \<le> bl_contentQualityScore_of a' b c d"
  unfolding bl_contentQualityScore_of_def by (intro min.mono add_mono) auto

lemma bl_consistencyScore_of_range: "0 \<le> a \<Longrightarrow> in_range (bl_consistencyScore_of a)"
  by (auto simp: bl_consistencyScore_of_def in_range_def)

lemma bl_engagementScore_of_range:
  "0 \<le> a \<Longrightarrow> 0 \<le> b \<Longrightarrow> 0 \<le> c \<Longrightarrow> in_range (bl_engagementScore_of a b c)"
  by (auto simp: bl_engagementScore_of_def in_range_def)

lemma bl_engagementScore_of_mono:
  "a \<le> a' \<Longrightarrow> b \<le> b' \<Longrightarrow> c \<le> c' \<Longrightarrow> bl_engagementScore_of a b c \<le> bl_engagementScore_of a' b' c'"
  unfolding bl_engagementScore_of_def by (intro min.mono add_mono) auto

lemma bl_blend_range:
  assumes "in_range a" "in_range b" "in_range c" "in_range d"
  shows "in_range (bl_blend a b c d)"
  unfolding bl_blend_def by (rule js_round_range) (use assms in \<open>simp add: in_range_def\<close>)

lemma bl_blend_mono:
  assumes "a \<le> a'" "b \<le> b'" "c \<le> c'" "d \<le> d'"
  shows "bl_blend a b c d \<le> bl_blend a' b' c' d'"
  unfolding bl_blend_def by (rule js_round_mono) (use assms in simp)

lemma blog_ranges:
  assumes v: "valid_blog p posts" and ne: "posts \<noteq> []"
  shows "in_range (blog_contentQuality posts)" "in_range (bl_consistencyScore_of (blog_postsPerMonth posts))"
    "in_range (blog_engagement p posts)" "in_range (blog_topicDiversity posts)"
proof -
  have n: "(0::rat) < of_nat (length posts)" using ne by simp
  have all: "list_all (\<lambda>b. 0 \<le> readingTime b \<and> 0 \<le> reactions b \<and> 0 \<le> comments b) posts"
    using v by (simp add: valid_blog_def)
  have t: "0 \<le> sum_list (map readingTime posts)"
    by (rule sum_list_nonneg_all) (use all in \<open>simp add: list_all_iff\<close>)
  have r: "0 \<le> sum_list (map reactions posts)"
    by (rule sum_list_nonneg_all) (use all in \<open>simp add: list_all_iff\<close>)
  have c: "0 \<le> sum_list (map comments posts)"
    by (rule sum_list_nonneg_all) (use all in \<open>simp add: list_all_iff\<close>)
  show "in_range (blog_contentQuality posts)"
    unfolding blog_contentQuality_def
    by (rule bl_contentQualityScore_of_range) (use t n in simp_all)
  have "0 \<le> blog_postsPerMonth posts"
    by (simp add: blog_postsPerMonth_def Let_def)
  then show "in_range (bl_consistencyScore_of (blog_postsPerMonth posts))"
    by (rule bl_consistencyScore_of_range)
  show "in_range (blog_engagement p posts)"
    unfolding blog_engagement_def
    by (rule bl_engagementScore_of_range) (use r c n v in \<open>simp_all add: valid_blog_def\<close>)
  show "in_range (blog_topicDiversity posts)"
    by (simp add: blog_topicDiversity_def in_range_def)
qed

lemma blog_bounds:
  assumes v: "valid_blog p posts"
  shows "\<exists>m. calculateMetrics_blog p posts = Some m
     \<and> in_range (contentQualityScore m) \<and> in_range (bl_consistencyScore m)
     \<and> in_range (bl_engagementScore m) \<and> in_range (topicDiversityScore m) \<and> in_range (bl_overallScore m)"
proof (cases "posts = []")
  case True
  show ?thesis by (simp add: True blog_closed_form_empty in_range_def)
next
  case False
  note g = blog_ranges [OF v False]
  from blog_closed_form [OF False, of p] obtain recs where
    "calculateMetrics_blog p posts =
     Some \<lparr>contentQualityScore = js_round (blog_contentQuality posts),
           bl_consistencyScore = js_round (bl_consistencyScore_of (blog_postsPerMonth posts)),
           bl_engagementScore = js_round (blog_engagement p posts),
           topicDiversityScore = js_round (blog_topicDiversity posts),
           bl_overallScore = blog_overall p posts,
           bl_recommendations = recs\<rparr>" by blast
  then show ?thesis
    by (simp add: g js_round_range blog_overall_def False bl_blend_range)
qed

lemma blog_monotone:
  assumes p: "bl_profile_le p p'" and ps: "list_all2 post_le posts posts'"
  shows "blog_overall p posts \<le> blog_overall p' posts'"
proof -
  have len: "length posts = length posts'"
    by (rule list_all2_lengthD [OF ps])
  show ?thesis
  proof (cases "posts = []")
    case True
    then have "posts' = []" using len by simp
    then show ?thesis by (simp add: blog_overall_def True)
  next
    case False
    then have ne': "posts' \<noteq> []" using len by auto
    have t: "sum_list (map readingTime posts) \<le> sum_list (map readingTime posts')"
      by (rule list_all2_sum_mono [OF ps]) (simp add: post_le_def)
    have r: "sum_list (map reactions posts) \<le> sum_list (map reactions posts')"
      by (rule list_all2_sum_mono [OF ps]) (simp add: post_le_def)
    have c: "sum_list (map comments posts) \<le> sum_list (map comments posts')"
      by (rule list_all2_sum_mono [OF ps]) (simp add: post_le_def)
    have avt: "sum_list (map readingTime posts) / of_nat (length posts)
               \<le> sum_list (map readingTime posts') / of_nat (length posts')"
      unfolding len by (rule divide_right_mono [OF t]) simp
    have avr: "sum_list (map reactions posts) / of_nat (length posts)
               \<le> sum_list (map reactions posts') / of_nat (length posts')"
      unfolding len by (rule divide_right_mono [OF r]) simp
    have avc: "sum_list (map comments posts) / of_nat (length posts)
               \<le> sum_list (map comments posts') / of_nat (length posts')"
      unfolding len by (rule divide_right_mono [OF c]) simp
    have cover: "length (filter (\<lambda>p. truthy (coverImage p)) posts)
                 = length (filter (\<lambda>p. truthy (coverImage p)) posts')"
      by (rule list_all2_count_eq [OF ps]) (simp add: post_le_def)
    have exc: "length (filter long_excerpt posts) = length (filter long_excerpt posts')"
      by (rule list_all2_count_eq [OF ps]) (simp add: post_le_def long_excerpt_def)
    have q: "blog_contentQuality posts \<le> blog_contentQuality posts'"
      unfolding blog_contentQuality_def cover exc
      using bl_contentQualityScore_of_mono [OF avt] by (simp only: len)
    have sorted: "list_all2 post_le (sort_key publishedAt posts) (sort_key publishedAt posts')"
      by (rule list_all2_sort_key [OF ps]) (simp add: post_le_def)
    have nth: "publishedAt (sort_key publishedAt posts ! i) = publishedAt (sort_key publishedAt posts' ! i)"
      if "i < length posts" for i
      using list_all2_nthD [OF sorted, of i] that by (simp add: post_le_def)
    have m: "blog_postsPerMonth posts = blog_postsPerMonth posts'"
      using False by (simp add: blog_postsPerMonth_def Let_def len [symmetric] nth)
    have e: "blog_engagement p posts \<le> blog_engagement p' posts'"
      unfolding blog_engagement_def
      by (rule bl_engagementScore_of_mono [OF avr avc]) (use p in \<open>simp add: bl_profile_le_def\<close>)
    have tg: "map tags posts = map tags posts'"
      by (rule list_all2_map_eq [OF ps]) (simp add: post_le_def)
    have d: "blog_topicDiversity posts = blog_topicDiversity posts'"
      by (simp add: blog_topicDiversity_def tg)
    show ?thesis
      using False ne' by (simp add: blog_overall_def m d bl_blend_mono [OF q _ e])
  qed
qed

subsection \<open>LinkedIn\<close>

lemma linkedin_closed_form:
  "\<exists>recs. calculateMetrics_linkedin today p experiences education skills certifications =
     Some \<lparr>experienceScore = js_round (linkedin_experience today experiences),
           educationScore = js_round (linkedin_education education),
           skillsScore = js_round (linkedin_skills skills),
           networkScore = js_round (li_networkScore_of (connections p)),
           li_overallScore = linkedin_overall today p experiences education skills,
           li_recommendations = recs\<rparr>"
  by (simp add: calculateMetrics_linkedin_def Let_def linkedin_overall_def linkedin_experience_def
      linkedin_education_def linkedin_skills_def li_yearsOfExperience_def li_totalMonths_def
      foldl_add_sum_list foldl_add_sum_list_int)

lemma li_experienceScore_of_range:
  "0 \<le> a \<Longrightarrow> 0 \<le> c \<Longrightarrow> in_range (li_experienceScore_of a n c)"
  by (auto simp: li_experienceScore_of_def in_range_def)

lemma li_educationScore_of_range: "in_range (li_educationScore_of n a b)"
  by (auto simp: li_educationScore_of_def in_range_def)

lemma li_skillsScore_of_range: "0 \<le> a \<Longrightarrow> in_range (li_skillsScore_of n a)"
  by (auto simp: li_skillsScore_of_def in_range_def)

lemma li_skillsScore_of_mono: "a \<le> a' \<Longrightarrow> li_skillsScore_of n a \<le> li_skillsScore_of n a'"
  unfolding li_skillsScore_of_def by (intro min.mono add_mono) auto

lemma li_networkScore_of_range: "0 \<le> a \<Longrightarrow> in_range (li_networkScore_of a)"
  by (auto simp: li_networkScore_of_def in_range_def)

lemma li_networkScore_of_mono: "a \<le> a' \<Longrightarrow> li_networkScore_of a \<le> li_networkScore_of a'"
  unfolding li_networkScore_of_def by (intro min.mono) auto

lemma li_blend_range:
  assumes "in_range a" "in_range b" "in_range c" "in_range d"
  shows "in_range (li_blend a b c d)"
  unfolding li_blend_def by (rule js_round_range) (use assms in \<open>simp add: in_range_def\<close>)

lemma li_blend_mono:
  assumes "a \<le> a'" "b \<le> b'" "c \<le> c'" "d \<le> d'"
  shows "li_blend a b c d \<le> li_blend a' b' c' d'"
  unfolding li_blend_def by (rule js_round_mono) (use assms in simp)

lemma linkedin_ranges:
  assumes v: "valid_linkedin p skills"
  shows "in_range (linkedin_experience today experiences)" "in_range (linkedin_education education)"
    "in_range (linkedin_skills skills)" "in_range (li_networkScore_of (connections p))"
proof -
  have "0 \<le> li_totalMonths today experiences"
    unfolding li_totalMonths_def by (rule sum_list_nonneg) auto
  then have "0 \<le> li_yearsOfExperience today experiences"
    by (simp add: li_yearsOfExperience_def js_round_nonneg)
  then show "in_range (linkedin_experience today experiences)"
    unfolding linkedin_experience_def
    by (rule li_experienceScore_of_range) (rule ratio_max_nonneg)
  show "in_range (linkedin_education education)"
    by (simp add: linkedin_education_def li_educationScore_of_range)
  have "0 \<le> sum_list (map endorsements skills)"
    by (rule sum_list_nonneg_all) (use v in \<open>simp add: valid_linkedin_def\<close>)
  then show "in_range (linkedin_skills skills)"
    by (simp add: linkedin_skills_def li_skillsScore_of_range)
  show "in_range (li_networkScore_of (connections p))"
    by (rule li_networkScore_of_range) (use v in \<open>simp add: valid_linkedin_def\<close>)
qed

lemma linkedin_bounds:
  assumes v: "valid_linkedin p skills"
  shows "\<exists>m. calculateMetrics_linkedin today p experiences education skills certifications = Some m
     \<and> in_range (experienceScore m) \<and> in_range (educationScore m)
     \<and> in_range (skillsScore m) \<and> in_range (networkScore m) \<and> in_range (li_overallScore m)"
proof -
  note g = linkedin_ranges [OF v]
  from linkedin_closed_form [of today p experiences education skills certifications] obtain recs where
    "calculateMetrics_linkedin today p experiences education skills certifications =
     Some \<lparr>experienceScore = js_round (linkedin_experience today experiences),
           educationScore = js_round (linkedin_education education),
           skillsScore = js_round (linkedin_skills skills),
           networkScore = js_round (li_networkScore_of (connections p)),
           li_overallScore = linkedin_overall today p experiences education skills,
           li_recommendations = recs\<rparr>" by blast
  then show ?thesis
    by (simp add: g js_round_range linkedin_overall_def li_blend_range)
qed

lemma linkedin_monotone:
  assumes p: "li_profile_le p p'" and ed: "list_all2 education_le education education'"
    and sk: "list_all2 skill_le skills skills'"
  shows "linkedin_overall today p experiences education skills
         \<le> linkedin_overall today p' experiences education' skills'"
proof -
  have adv: "list_ex (\<lambda>e. degree_includes e ''master'' \<or> degree_includes e ''phd'' \<or> degree_includes e ''mba'') education
           = list_ex (\<lambda>e. degree_includes e ''master'' \<or> degree_includes e ''phd'' \<or> degree_includes e ''mba'') education'"
    by (rule list_all2_list_ex_eq [OF ed]) (simp add: education_le_def degree_includes_def)
  have fld: "list_ex (\<lambda>e. truthy (fieldOfStudy e)) education = list_ex (\<lambda>e. truthy (fieldOfStudy e)) education'"
    by (rule list_all2_list_ex_eq [OF ed]) (simp add: education_le_def)
  have e: "linkedin_education education = linkedin_education education'"
    by (simp add: linkedin_education_def adv fld list_all2_lengthD [OF ed])
  have "sum_list (map endorsements skills) \<le> sum_list (map endorsements skills')"
    by (rule list_all2_sum_mono [OF sk]) (simp add: skill_le_def)
  then have s: "linkedin_skills skills \<le> linkedin_skills skills'"
    by (simp add: linkedin_skills_def list_all2_lengthD [OF sk] li_skillsScore_of_mono)
  have n: "li_networkScore_of (connections p) \<le> li_networkScore_of (connections p')"
    by (rule li_networkScore_of_mono) (use p in \<open>simp add: li_profile_le_def\<close>)
  show ?thesis
    unfolding linkedin_overall_def e by (rule li_blend_mono [OF order_refl order_refl s n])
qed

subsection \<open>Composite score\<close>

lemma weighted_sums:
  assumes "list_all (\<lambda>f. in_range (fst f) \<and> 0 < snd f) fam"
  shows "0 \<le> sum_list (map (\<lambda>(s, w). s * w) fam)
         \<and> sum_list (map (\<lambda>(s, w). s * w) fam) \<le> 100 * sum_list (map snd fam)
         \<and> (fam \<noteq> [] \<longrightarrow> 0 < sum_list (map snd fam))
         \<and> 0 \<le> sum_list (map snd fam)"
  using assms
proof (induction fam)
  case Nil
  show ?case by simp
next
  case (Cons f fam)
  obtain s w where f: "f = (s, w)" by (cases f)
  from Cons.prems have sw: "0 \<le> s" "s \<le> 100" "0 < w" and rest: "list_all (\<lambda>f. in_range (fst f) \<and> 0 < snd f) fam"
    by (simp_all add: f in_range_def)
  note ih = Cons.IH [OF rest]
  have a: "0 \<le> s * w" using sw by simp
  have b: "s * w \<le> 100 * w" using sw by simp
  have e1: "sum_list (map (\<lambda>(s, w). s * w) (f # fam)) = s * w + sum_list (map (\<lambda>(s, w). s * w) fam)"
    by (simp add: f)
  have e2: "sum_list (map snd (f # fam)) = w + sum_list (map snd fam)"
    by (simp add: f)
  from ih have i1: "0 \<le> sum_list (map (\<lambda>(s, w). s * w) fam)"
    and i2: "sum_list (map (\<lambda>(s, w). s * w) fam) \<le> 100 * sum_list (map snd fam)"
    and i4: "0 \<le> sum_list (map snd fam)" by simp_all
  show ?case unfolding e1 e2
  proof (intro conjI impI)
    show "0 \<le> s * w + sum_list (map (\<lambda>(s, w). s * w) fam)" using a i1 by linarith
    show "s * w + sum_list (map (\<lambda>(s, w). s * w) fam) \<le> 100 * (w + sum_list (map snd fam))"
      using add_mono [OF b i2] by (simp only: distrib_left)
    show "0 < w + sum_list (map snd fam)" using sw i4 by linarith
    show "0 \<le> w + sum_list (map snd fam)" using sw i4 by linarith
  qed
qed

lemma weighted_mean_range:
  assumes "list_all (\<lambda>f. in_range (fst f) \<and> 0 < snd f) fam" "fam \<noteq> []"
  shows "in_range (sum_list (map (\<lambda>(s, w). s * w) fam) / sum_list (map snd fam))"
proof -
  from weighted_sums [OF assms(1)] assms(2)
  have "0 \<le> sum_list (map (\<lambda>(s, w). s * w) fam)"
    "sum_list (map (\<lambda>(s, w). s * w) fam) \<le> 100 * sum_list (map snd fam)"
    "0 < sum_list (map snd fam)" by simp_all
  then show ?thesis by (simp add: in_range_def divide_le_eq)
qed

lemma mean_range:
  assumes "list_all in_range xs" "xs \<noteq> []"
  shows "in_range (sum_list xs / of_nat (length xs))"
proof -
  have "0 \<le> sum_list xs \<and> sum_list xs \<le> 100 * of_nat (length xs)"
    using assms(1) by (induction xs) (auto simp: in_range_def algebra_simps)
  moreover have "(0::rat) < of_nat (length xs)" using assms(2) by simp
  ultimately show ?thesis by (simp add: in_range_def divide_le_eq)
qed

lemma blogScore_in_range:
  assumes "platforms_in_range ps" "combined_blogScore (blogScores_of ps) = Some s"
  shows "in_range s"
proof -
  have all: "list_all in_range (blogScores_of ps)"
    using assms(1)
    by (auto simp: platforms_in_range_def blogScores_of_def when_present_def split: option.splits)
  from assms(2) have ne: "blogScores_of ps \<noteq> []"
    and s: "s = js_round (sum_list (blogScores_of ps) / of_nat (length (blogScores_of ps)))"
    by (auto simp: combined_blogScore_def foldl_plus_sum_list split: if_splits)
  show ?thesis unfolding s by (rule js_round_range) (rule mean_range [OF all ne])
qed

lemma present_families_in_range:
  assumes w: "0 < github (weights this)" "0 < linkedin (weights this)"
    "0 < twitter (weights this)" "0 < blog (weights this)"
    and r: "platforms_in_range (platforms p)"
  shows "list_all (\<lambda>f. in_range (fst f) \<and> 0 < snd f)
           (present_families (weights this) (calculateCompositeScore this now p))"
proof -
  have b: "in_range s" if "blogScore (calculateCompositeScore this now p) = Some s" for s
    using that blogScore_in_range [OF r] by (simp add: blogScore_unfold)
  have g: "in_range s" if "githubScore (calculateCompositeScore this now p) = Some s" for s
    using that r by (auto simp: calculateCompositeScore_def Let_def platforms_in_range_def)
  have l: "in_range s" if "linkedinScore (calculateCompositeScore this now p) = Some s" for s
    using that r by (auto simp: calculateCompositeScore_def Let_def platforms_in_range_def split: option.splits)
  have t: "in_range s" if "socialScore (calculateCompositeScore this now p) = Some s" for s
    using that r by (auto simp: calculateCompositeScore_def Let_def platforms_in_range_def split: option.splits)
  show ?thesis
    using w b g l t
    by (auto simp: present_families_def when_present_def split: option.splits)
qed

lemma composite_bounds:
  assumes w: "0 < github (weights this)" "0 < linkedin (weights this)"
    "0 < twitter (weights this)" "0 < blog (weights this)"
    and r: "platforms_in_range (platforms p)"
  shows "in_range (overallScore (calculateCompositeScore this now p))"
    and "overallScore (calculateCompositeScore this now p) \<in> \<int>"
proof -
  let ?fam = "present_families (weights this) (calculateCompositeScore this now p)"
  have eq: "overallScore (calculateCompositeScore this now p) = renormalized_overall ?fam"
    by (rule overallScore_renormalized [OF w])
  show "in_range (overallScore (calculateCompositeScore this now p))"
  proof (cases "?fam = []")
    case True
    then show ?thesis by (simp add: eq renormalized_overall_def in_range_def)
  next
    case False
    have "in_range (js_round (sum_list (map (\<lambda>(s, w). s * w) ?fam) / sum_list (map snd ?fam)))"
      by (rule js_round_range) (rule weighted_mean_range [OF present_families_in_range [OF w r] False])
    then show ?thesis using False by (simp add: eq renormalized_overall_def)
  qed
  show "overallScore (calculateCompositeScore this now p) \<in> \<int>"
    by (simp add: eq renormalized_overall_def js_round_def)
qed

section \<open>Bounds, empty inputs and monotonicity\<close>

lemma github_returns_overall:
  "\<exists>m. calculateMetrics_github six p rs st = Some m \<and> gh_overallScore m = github_overall p rs st"
  using github_closed_form [of six p rs st] by auto

lemma linkedin_returns_overall:
  "\<exists>m. calculateMetrics_linkedin today p experiences education skills certifications = Some m
       \<and> li_overallScore m = linkedin_overall today p experiences education skills"
  using linkedin_closed_form [of today p experiences education skills certifications] by auto

lemma twitter_returns_overall:
  "\<exists>m. calculateMetrics_twitter p tweets = Some m \<and> tw_overallScore m = twitter_overall p tweets"
proof (cases "tw_original tweets = []")
  case True
  then show ?thesis by (simp add: twitter_closed_form_empty)
next
  case False
  then show ?thesis using twitter_closed_form [of tweets p] by auto
qed

lemma blog_returns_overall:
  "\<exists>m. calculateMetrics_blog p posts = Some m \<and> bl_overallScore m = blog_overall p posts"
proof (cases "posts = []")
  case True
  then show ?thesis by (simp add: blog_closed_form_empty blog_overall_def)
next
  case False
  then show ?thesis using blog_closed_form [of posts p] by auto
qed

text \<open>
  C4. For all valid (non-negative) inputs, each of the four calculators returns metrics
  whose sub-dimension scores and overall score lie in [0,100]; and for positive weights
  and a profile whose platform scores lie in [0,100], the overall score of the composite
  is an integer in [0,100].
\<close>

theorem scores_within_bounds:
  "(valid_github gp rs st \<longrightarrow>
      (\<exists>m. calculateMetrics_github six gp rs st = Some m
         \<and> in_range (codeQualityScore m) \<and> in_range (languageDiversity m)
         \<and> in_range (commitFrequency m) \<and> in_range (collaborationScore m)
         \<and> in_range (projectImpactScore m) \<and> in_range (gh_overallScore m)))
   \<and> (valid_linkedin lp skills \<longrightarrow>
      (\<exists>m. calculateMetrics_linkedin today lp experiences education skills certifications = Some m
         \<and> in_range (experienceScore m) \<and> in_range (educationScore m)
         \<and> in_range (skillsScore m) \<and> in_range (networkScore m) \<and> in_range (li_overallScore m)))
   \<and> (valid_twitter tp tweets \<longrightarrow>
      (\<exists>m. calculateMetrics_twitter tp tweets = Some m
         \<and> in_range (tw_engagementScore m) \<and> in_range (technicalContentScore m)
         \<and> in_range (influenceScore m) \<and> in_range (tw_consistencyScore m)
         \<and> in_range (tw_overallScore m)))
   \<and> (valid_blog bp posts \<longrightarrow>
      (\<exists>m. calculateMetrics_blog bp posts = Some m
         \<and> in_range (contentQualityScore m) \<and> in_range (bl_consistencyScore m)
         \<and> in_range (bl_engagementScore m) \<and> in_range (topicDiversityScore m)
         \<and> in_range (bl_overallScore m)))
   \<and> (0 < github (weights this) \<and> 0 < linkedin (weights this) \<and> 0 < twitter (weights this)
        \<and> 0 < blog (weights this) \<and> platforms_in_range (platforms profile) \<longrightarrow>
      in_range (overallScore (calculateCompositeScore this now profile))
      \<and> overallScore (calculateCompositeScore this now profile) \<in> \<int>)"
proof (intro conjI impI)
  assume "valid_github gp rs st"
  then show "\<exists>m. calculateMetrics_github six gp rs st = Some m
         \<and> in_range (codeQualityScore m) \<and> in_range (languageDiversity m)
         \<and> in_range (commitFrequency m) \<and> in_range (collaborationScore m)
         \<and> in_range (projectImpactScore m) \<and> in_range (gh_overallScore m)"
    by (rule github_bounds)
next
  assume "valid_linkedin lp skills"
  then show "\<exists>m. calculateMetrics_linkedin today lp experiences education skills certifications = Some m
         \<and> in_range (experienceScore m) \<and> in_range (educationScore m)
         \<and> in_range (skillsScore m) \<and> in_range (networkScore m) \<and> in_range (li_overallScore m)"
    by (rule linkedin_bounds)
next
  assume "valid_twitter tp tweets"
  then show "\<exists>m. calculateMetrics_twitter tp tweets = Some m
         \<and> in_range (tw_engagementScore m) \<and> in_range (technicalContentScore m)
         \<and> in_range (influenceScore m) \<and> in_range (tw_consistencyScore m)
         \<and> in_range (tw_overallScore m)"
    by (rule twitter_bounds)
next
  assume "valid_blog bp posts"
  then show "\<exists>m. calculateMetrics_blog bp posts = Some m
         \<and> in_range (contentQualityScore m) \<and> in_range (bl_consistencyScore m)
         \<and> in_range (bl_engagementScore m) \<and> in_range (topicDiversityScore m)
         \<and> in_range (bl_overallScore m)"
    by (rule blog_bounds)
next
  assume a: "0 < github (weights this) \<and> 0 < linkedin (weights this) \<and> 0 < twitter (weights this)
        \<and> 0 < blog (weights this) \<and> platforms_in_range (platforms profile)"
  then show "in_range (overallScore (calculateCompositeScore this now profile))"
    by (intro composite_bounds) simp_all
next
  assume a: "0 < github (weights this) \<and> 0 < linkedin (weights this) \<and> 0 < twitter (weights this)
        \<and> 0 < blog (weights this) \<and> platforms_in_range (platforms profile)"
  then show "overallScore (calculateCompositeScore this now profile) \<in> \<int>"
    by (intro composite_bounds) simp_all
qed

theorem scores_within_bounds_witness:
  "valid_github gh_profile_ex [gh_repo_ex 10] gh_stats_ex
   \<and> valid_linkedin (li_profile_ex 100) [li_skill_ex]
   \<and> valid_twitter (tw_profile_ex 1) [tweet_ex 1]
   \<and> valid_blog bl_profile_ex [post_ex 2]
   \<and> platforms_in_range (platforms (profile_of github_and_linkedin))
   \<and> (\<exists>m. calculateMetrics_github 0 gh_profile_ex [gh_repo_ex 10] gh_stats_ex = Some m
         \<and> gh_overallScore m = 19 \<and> in_range (gh_overallScore m))
   \<and> (\<exists>m. calculateMetrics_linkedin (2024, 5) (li_profile_ex 100) [li_experience_ex]
              [li_education_ex] [li_skill_ex] [] = Some m
         \<and> li_overallScore m = 51 \<and> in_range (li_overallScore m))
   \<and> (\<exists>m. calculateMetrics_twitter (tw_profile_ex 1) [tweet_ex 1] = Some m
         \<and> tw_overallScore m = 10 \<and> in_range (tw_overallScore m))
   \<and> (\<exists>m. calculateMetrics_blog bl_profile_ex [post_ex 2] = Some m
         \<and> bl_overallScore m = 27 \<and> in_range (bl_overallScore m))
   \<and> overallScore (calculateCompositeScore default_service 0 (profile_of github_and_linkedin)) = 71
   \<and> in_range (overallScore (calculateCompositeScore default_service 0 (profile_of github_and_linkedin)))"
proof -
  have g: "valid_github gh_profile_ex [gh_repo_ex 10] gh_stats_ex" by code_simp
  have l: "valid_linkedin (li_profile_ex 100) [li_skill_ex]" by code_simp
  have t: "valid_twitter (tw_profile_ex 1) [tweet_ex 1]" by code_simp
  have b: "valid_blog bl_profile_ex [post_ex 2]" by code_simp
  have c: "0 < github (weights default_service) \<and> 0 < linkedin (weights default_service)
      \<and> 0 < twitter (weights default_service) \<and> 0 < blog (weights default_service)
      \<and> platforms_in_range (platforms (profile_of github_and_linkedin))" by code_simp
  have gv: "map_option gh_overallScore
              (calculateMetrics_github 0 gh_profile_ex [gh_repo_ex 10] gh_stats_ex) = Some 19"
    by code_simp
  have lv: "map_option li_overallScore
              (calculateMetrics_linkedin (2024, 5) (li_profile_ex 100) [li_experience_ex]
                 [li_education_ex] [li_skill_ex] []) = Some 51"
    by code_simp
  have tv: "map_option tw_overallScore
              (calculateMetrics_twitter (tw_profile_ex 1) [tweet_ex 1]) = Some 10"
    by code_simp
  have bv: "map_option bl_overallScore (calculateMetrics_blog bl_profile_ex [post_ex 2]) = Some 27"
    by code_simp
  have cv: "overallScore (calculateCompositeScore default_service 0 (profile_of github_and_linkedin)) = 71"
    by code_simp
  note all = scores_within_bounds [of gh_profile_ex "[gh_repo_ex 10]" gh_stats_ex 0
      "li_profile_ex 100" "[li_skill_ex]" "(2024, 5)" "[li_experience_ex]" "[li_education_ex]" "[]"
      "tw_profile_ex 1" "[tweet_ex 1]" bl_profile_ex "[post_ex 2]" default_service
      "profile_of github_and_linkedin" 0]
  from all g gv have 1: "\<exists>m. calculateMetrics_github 0 gh_profile_ex [gh_repo_ex 10] gh_stats_ex = Some m
         \<and> gh_overallScore m = 19 \<and> in_range (gh_overallScore m)" by auto
  from all l lv have 2: "\<exists>m. calculateMetrics_linkedin (2024, 5) (li_profile_ex 100) [li_experience_ex]
              [li_education_ex] [li_skill_ex] [] = Some m
         \<and> li_overallScore m = 51 \<and> in_range (li_overallScore m)" by auto
  from all t tv have 3: "\<exists>m. calculateMetrics_twitter (tw_profile_ex 1) [tweet_ex 1] = Some m
         \<and> tw_overallScore m = 10 \<and> in_range (tw_overallScore m)" by auto
  from all b bv have 4: "\<exists>m. calculateMetrics_blog bl_profile_ex [post_ex 2] = Some m
         \<and> bl_overallScore m = 27 \<and> in_range (bl_overallScore m)" by auto
  from all c have 5: "in_range (overallScore (calculateCompositeScore default_service 0
                                   (profile_of github_and_linkedin)))" by blast
  from g l t b c 1 2 3 4 5 cv show ?thesis by blast
qed

text \<open>
  C5. For every profile paired with an empty activity list (no repositories, no
  experience entries, no tweets, no posts), each calculator returns metrics (no division
  by zero, no read of a missing element), and the recommendations contain an entry
  urging more activity.
\<close>

theorem empty_activity_returns_recommendation:
  "(\<exists>m. calculateMetrics_github six gp [] st = Some m
       \<and> ''Explore more programming languages to increase diversity'' \<in> set (gh_recommendations m)
       \<and> ''Keep more projects actively maintained'' \<in> set (gh_recommendations m))
   \<and> (\<exists>m. calculateMetrics_linkedin today lp [] education skills certifications = Some m
       \<and> ''Gain more professional experience'' \<in> set (li_recommendations m))
   \<and> (\<exists>m. calculateMetrics_twitter tp [] = Some m
       \<and> tw_recommendations m = [''Tweet more to build your social presence''])
   \<and> (\<exists>m. calculateMetrics_blog bp [] = Some m
       \<and> bl_recommendations m = [''Start writing blog posts to build your content portfolio''])"
proof (intro conjI)
  show "\<exists>m. calculateMetrics_github six gp [] st = Some m
       \<and> ''Explore more programming languages to increase diversity'' \<in> set (gh_recommendations m)
       \<and> ''Keep more projects actively maintained'' \<in> set (gh_recommendations m)"
    by (simp add: calculateMetrics_github_def Let_def push_if_def new_Set_def)
  show "\<exists>m. calculateMetrics_linkedin today lp [] education skills certifications = Some m
       \<and> ''Gain more professional experience'' \<in> set (li_recommendations m)"
    by (simp add: calculateMetrics_linkedin_def Let_def push_if_def js_round_def)
  show "\<exists>m. calculateMetrics_twitter tp [] = Some m
       \<and> tw_recommendations m = [''Tweet more to build your social presence'']"
    by (simp add: calculateMetrics_twitter_def)
  show "\<exists>m. calculateMetrics_blog bp [] = Some m
       \<and> bl_recommendations m = [''Start writing blog posts to build your content portfolio'']"
    by (simp add: calculateMetrics_blog_def)
qed

text \<open>
  C6, as stated: raising any single numeric input of a calculator never lowers its
  overall score. It fails for the Twitter follower count: with one original tweet of one
  like, the overall score is 10 at 1 follower and 3 at 1000 followers (the engagement
  rate is engagement per follower).
\<close>

theorem twitter_followers_not_monotone_counterexample:
  "tw_profile_ex 1000 = (tw_profile_ex 1)\<lparr>tw_followers := 1000\<rparr>
   \<and> map_option tw_overallScore (calculateMetrics_twitter (tw_profile_ex 1) [tweet_ex 1]) = Some 10
   \<and> map_option tw_overallScore (calculateMetrics_twitter (tw_profile_ex 1000) [tweet_ex 1]) = Some 3"
proof -
  have a: "tw_profile_ex 1000 = (tw_profile_ex 1)\<lparr>tw_followers := 1000\<rparr>"
    by (simp add: tw_profile_ex_def)
  have b: "map_option tw_overallScore (calculateMetrics_twitter (tw_profile_ex 1) [tweet_ex 1]) = Some 10"
    by code_simp
  have c: "map_option tw_overallScore (calculateMetrics_twitter (tw_profile_ex 1000) [tweet_ex 1]) = Some 3"
    by code_simp
  from a b c show ?thesis by simp
qed

text \<open>
  C6, amended: for each of the four calculators, raising any numeric inputs other than
  the Twitter follower count, while every other input stays fixed, never lowers the
  overall score. Both calls return, and the overall score of the lower input is at most
  that of the higher one.
\<close>

theorem overall_monotone_in_numeric_inputs:
  "(gh_profile_le gp gp' \<and> list_all2 gh_repo_le rs rs' \<and> gh_stats_le st st' \<longrightarrow>
      (\<exists>m m'. calculateMetrics_github six gp rs st = Some m
         \<and> calculateMetrics_github six gp' rs' st' = Some m'
         \<and> gh_overallScore m \<le> gh_overallScore m'))
   \<and> (li_profile_le lp lp' \<and> list_all2 education_le education education'
        \<and> list_all2 skill_le skills skills' \<longrightarrow>
      (\<exists>m m'. calculateMetrics_linkedin today lp experiences education skills certifications = Some m
         \<and> calculateMetrics_linkedin today lp' experiences education' skills' certifications = Some m'
         \<and> li_overallScore m \<le> li_overallScore m'))
   \<and> (tw_profile_le tp tp' \<and> list_all2 tweet_le tweets tweets' \<longrightarrow>
      (\<exists>m m'. calculateMetrics_twitter tp tweets = Some m
         \<and> calculateMetrics_twitter tp' tweets' = Some m'
         \<and> tw_overallScore m \<le> tw_overallScore m'))
   \<and> (bl_profile_le bp bp' \<and> list_all2 post_le posts posts' \<longrightarrow>
      (\<exists>m m'. calculateMetrics_blog bp posts = Some m
         \<and> calculateMetrics_blog bp' posts' = Some m'
         \<and> bl_overallScore m \<le> bl_overallScore m'))"
proof (intro conjI impI)
  assume a: "gh_profile_le gp gp' \<and> list_all2 gh_repo_le rs rs' \<and> gh_stats_le st st'"
  obtain m m' where "calculateMetrics_github six gp rs st = Some m"
    "gh_overallScore m = github_overall gp rs st"
    "calculateMetrics_github six gp' rs' st' = Some m'"
    "gh_overallScore m' = github_overall gp' rs' st'"
    using github_returns_overall [of six gp rs st] github_returns_overall [of six gp' rs' st']
    by blast
  moreover have "github_overall gp rs st \<le> github_overall gp' rs' st'"
    by (rule github_monotone) (use a in simp_all)
  ultimately show "\<exists>m m'. calculateMetrics_github six gp rs st = Some m
         \<and> calculateMetrics_github six gp' rs' st' = Some m'
         \<and> gh_overallScore m \<le> gh_overallScore m'"
    by simp
next
  assume a: "li_profile_le lp lp' \<and> list_all2 education_le education education'
        \<and> list_all2 skill_le skills skills'"
  obtain m m' where
    "calculateMetrics_linkedin today lp experiences education skills certifications = Some m"
    "li_overallScore m = linkedin_overall today lp experiences education skills"
    "calculateMetrics_linkedin today lp' experiences education' skills' certifications = Some m'"
    "li_overallScore m' = linkedin_overall today lp' experiences education' skills'"
    using linkedin_returns_overall [of today lp experiences education skills certifications]
      linkedin_returns_overall [of today lp' experiences education' skills' certifications]
    by blast
  moreover have "linkedin_overall today lp experiences education skills
                 \<le> linkedin_overall today lp' experiences education' skills'"
    by (rule linkedin_monotone) (use a in simp_all)
  ultimately show
    "\<exists>m m'. calculateMetrics_linkedin today lp experiences education skills certifications = Some m
         \<and> calculateMetrics_linkedin today lp' experiences education' skills' certifications = Some m'
         \<and> li_overallScore m \<le> li_overallScore m'"
    by simp
next
  assume a: "tw_profile_le tp tp' \<and> list_all2 tweet_le tweets tweets'"
  obtain m m' where "calculateMetrics_twitter tp tweets = Some m"
    "tw_overallScore m = twitter_overall tp tweets"
    "calculateMetrics_twitter tp' tweets' = Some m'"
    "tw_overallScore m' = twitter_overall tp' tweets'"
    using twitter_returns_overall [of tp tweets] twitter_returns_overall [of tp' tweets']
    by blast
  moreover have "twitter_overall tp tweets \<le> twitter_overall tp' tweets'"
    by (rule twitter_monotone) (use a in simp_all)
  ultimately show "\<exists>m m'. calculateMetrics_twitter tp tweets = Some m
         \<and> calculateMetrics_twitter tp' tweets' = Some m'
         \<and> tw_overallScore m \<le> tw_overallScore m'"
    by simp
next
  assume a: "bl_profile_le bp bp' \<and> list_all2 post_le posts posts'"
  obtain m m' where "calculateMetrics_blog bp posts = Some m"
    "bl_overallScore m = blog_overall bp posts"
    "calculateMetrics_blog bp' posts' = Some m'"
    "bl_overallScore m' = blog_overall bp' posts'"
    using blog_returns_overall [of bp posts] blog_returns_overall [of bp' posts']
    by blast
  moreover have "blog_overall bp posts \<le> blog_overall bp' posts'"
    by (rule blog_monotone) (use a in simp_all)
  ultimately show "\<exists>m m'. calculateMetrics_blog bp posts = Some m
         \<and> calculateMetrics_blog bp' posts' = Some m'
         \<and> bl_overallScore m \<le> bl_overallScore m'"
    by simp
qed

theorem overall_monotone_in_numeric_inputs_witness:
  "gh_profile_le gh_profile_ex gh_profile_ex
   \<and> list_all2 gh_repo_le [gh_repo_ex 10] [gh_repo_ex 50] \<and> gh_stats_le gh_stats_ex gh_stats_ex
   \<and> li_profile_le (li_profile_ex 100) (li_profile_ex 300)
   \<and> list_all2 education_le [li_education_ex] [li_education_ex]
   \<and> list_all2 skill_le [li_skill_ex] [li_skill_ex]
   \<and> tw_profile_le (tw_profile_ex 1) (tw_profile_ex 1)
   \<and> list_all2 tweet_le [tweet_ex 1] [tweet_ex 5]
   \<and> bl_profile_le bl_profile_ex bl_profile_ex \<and> list_all2 post_le [post_ex 2] [post_ex 8]
   \<and> (\<exists>m m'. calculateMetrics_github 0 gh_profile_ex [gh_repo_ex 10] gh_stats_ex = Some m
         \<and> calculateMetrics_github 0 gh_profile_ex [gh_repo_ex 50] gh_stats_ex = Some m'
         \<and> gh_overallScore m \<le> gh_overallScore m')
   \<and> (\<exists>m m'. calculateMetrics_linkedin (2024, 5) (li_profile_ex 100) [li_experience_ex]
                [li_education_ex] [li_skill_ex] [] = Some m
         \<and> calculateMetrics_linkedin (2024, 5) (li_profile_ex 300) [li_experience_ex]
                [li_education_ex] [li_skill_ex] [] = Some m'
         \<and> li_overallScore m \<le> li_overallScore m')
   \<and> (\<exists>m m'. calculateMetrics_twitter (tw_profile_ex 1) [tweet_ex 1] = Some m
         \<and> calculateMetrics_twitter (tw_profile_ex 1) [tweet_ex 5] = Some m'
         \<and> tw_overallScore m \<le> tw_overallScore m')
   \<and> (\<exists>m m'. calculateMetrics_blog bl_profile_ex [post_ex 2] = Some m
         \<and> calculateMetrics_blog bl_profile_ex [post_ex 8] = Some m'
         \<and> bl_overallScore m \<le> bl_overallScore m')
   \<and> map_option tw_overallScore (calculateMetrics_twitter (tw_profile_ex 1) [tweet_ex 5]) = Some 15
   \<and> map_option bl_overallScore (calculateMetrics_blog bl_profile_ex [post_ex 8]) = Some 34"
proof -
  have g: "gh_profile_le gh_profile_ex gh_profile_ex
     \<and> list_all2 gh_repo_le [gh_repo_ex 10] [gh_repo_ex 50] \<and> gh_stats_le gh_stats_ex gh_stats_ex"
    by code_simp
  have l: "li_profile_le (li_profile_ex 100) (li_profile_ex 300)
     \<and> list_all2 education_le [li_education_ex] [li_education_ex]
     \<and> list_all2 skill_le [li_skill_ex] [li_skill_ex]"
    by code_simp
  have t: "tw_profile_le (tw_profile_ex 1) (tw_profile_ex 1)
     \<and> list_all2 tweet_le [tweet_ex 1] [tweet_ex 5]"
    by code_simp
  have b: "bl_profile_le bl_profile_ex bl_profile_ex \<and> list_all2 post_le [post_ex 2] [post_ex 8]"
    by code_simp
  have tv: "map_option tw_overallScore (calculateMetrics_twitter (tw_profile_ex 1) [tweet_ex 5]) = Some 15"
    by code_simp
  have bv: "map_option bl_overallScore (calculateMetrics_blog bl_profile_ex [post_ex 8]) = Some 34"
    by code_simp
  note all = overall_monotone_in_numeric_inputs [of gh_profile_ex gh_profile_ex
      "[gh_repo_ex 10]" "[gh_repo_ex 50]" gh_stats_ex gh_stats_ex 0
      "li_profile_ex 100" "li_profile_ex 300" "[li_education_ex]" "[li_education_ex]"
      "[li_skill_ex]" "[li_skill_ex]" "(2024, 5)" "[li_experience_ex]" "[]"
      "tw_profile_ex 1" "tw_profile_ex 1" "[tweet_ex 1]" "[tweet_ex 5]"
      bl_profile_ex bl_profile_ex "[post_ex 2]" "[post_ex 8]"]
  from all g have 1: "\<exists>m m'. calculateMetrics_github 0 gh_profile_ex [gh_repo_ex 10] gh_stats_ex = Some m
         \<and> calculateMetrics_github 0 gh_profile_ex [gh_repo_ex 50] gh_stats_ex = Some m'
         \<and> gh_overallScore m \<le> gh_overallScore m'" by blast
  from all l have 2: "\<exists>m m'. calculateMetrics_linkedin (2024, 5) (li_profile_ex 100) [li_experience_ex]
                [li_education_ex] [li_skill_ex] [] = Some m
         \<and> calculateMetrics_linkedin (2024, 5) (li_profile_ex 300) [li_experience_ex]
                [li_education_ex] [li_skill_ex] [] = Some m'
         \<and> li_overallScore m \<le> li_overallScore m'" by blast
  from all t have 3: "\<exists>m m'. calculateMetrics_twitter (tw_profile_ex 1) [tweet_ex 1] = Some m
         \<and> calculateMetrics_twitter (tw_profile_ex 1) [tweet_ex 5] = Some m'
         \<and> tw_overallScore m \<le> tw_overallScore m'" by blast
  from all b have 4: "\<exists>m m'. calculateMetrics_blog bl_profile_ex [post_ex 2] = Some m
         \<and> calculateMetrics_blog bl_profile_ex [post_ex 8] = Some m'
         \<and> bl_overallScore m \<le> bl_overallScore m'" by blast
  from g l t b 1 2 3 4 tv bv show ?thesis by blast
qed

section \<open>The weighted mean in double precision\<close>

subsection \<open>Rounding to double precision\<close>





lemma fl64_zero [simp]: "fl64 0 = 0"
  by (simp add: fl64_def)
















subsection \<open>Accumulated rounding error\<close>










subsection \<open>The blog family in double precision\<close>







subsection \<open>The overall score in double precision\<close>

text \<open>
  The two definitions of the composite score differ only in the blog score, in the
  strengths and improvements (which read the blog score) and in the overall score.
\<close>

lemma calculateCompositeScore_ieee_other_fields:
  "calculateCompositeScore_ieee this now p =
     (calculateCompositeScore this now p)
       \<lparr>overallScore := overallScore (calculateCompositeScore_ieee this now p),
        blogScore := blogScore (calculateCompositeScore_ieee this now p),
        strengths := strengths (calculateCompositeScore_ieee this now p),
        improvements := improvements (calculateCompositeScore_ieee this now p)\<rparr>"
  by (simp add: calculateCompositeScore_ieee_def calculateCompositeScore_def Let_def)













end
